theory Spec2Isabelle
  imports Main
begin

section \<open>The Docling wrapper script\<close>

text \<open>
  A shallow embedding of \<^verbatim>\<open>services/nexus-graphrag/scripts/docling-wrapper.py\<close>:
  the command line adapter that calls an external document converter and flattens its
  result object into a plain dictionary.

  The external library is a parameter of the model. Every observation the script makes of
  an external object is a field of a record: \<^verbatim>\<open>hasattr\<close> is an \<open>option\<close>, a call that
  may raise is a sum with the exception on the left, an iteration is the items it yields
  and the exception that ends it, if one does, \<^verbatim>\<open>str(x)\<close> is the string it returns and
  \<^verbatim>\<open>int(x)\<close> the integer it returns or the exception it raises. Exceptions are
  instances of \<^verbatim>\<open>Exception\<close>, which is what the script catches. The command line is
  what \<^verbatim>\<open>argparse\<close> makes of it: a usage error, the help, or the parsed arguments.
  What the operating system answers when the output is opened and written is a parameter
  as well: an exception raised there, or while the converter is built, is caught nowhere
  and ends the run.
\<close>

subsection \<open>Python values, dictionaries, exceptions and the log\<close>

text \<open>
  \<open>PFloat m e\<close> is the float written \<open>m\<close> times ten to the power \<open>e\<close>; \<open>PObj s\<close> is any
  other object, named by its \<^verbatim>\<open>str\<close>. A dictionary keeps its insertion order.
\<close>

datatype pyval =
    PNone
  | PBool bool
  | PInt int
  | PFloat int int
  | PStr string
  | PList "pyval list"
  | PDict "(string \<times> pyval) list"
  | PObj string

type_synonym py_dict = "(string \<times> pyval) list"

datatype py_exception = PyException string

fun str_exc :: "py_exception \<Rightarrow> string" where
  "str_exc (PyException m) = m"

datatype log_level = INFO | WARNING | ERROR

type_synonym log_record = "log_level \<times> string"

fun truthy :: "pyval \<Rightarrow> bool" where
  "truthy PNone = False"
| "truthy (PBool b) = b"
| "truthy (PInt n) = (n \<noteq> 0)"
| "truthy (PFloat m e) = (m \<noteq> 0)"
| "truthy (PStr s) = (s \<noteq> [])"
| "truthy (PList xs) = (xs \<noteq> [])"
| "truthy (PDict kvs) = (kvs \<noteq> [])"
| "truthy (PObj s) = True"

text \<open>\<^verbatim>\<open>d.get(k, default)\<close>, \<^verbatim>\<open>d[k] = v\<close> and \<^verbatim>\<open>d.update(e)\<close>.\<close>

definition dict_get :: "py_dict \<Rightarrow> string \<Rightarrow> pyval \<Rightarrow> pyval" where
  "dict_get d k dflt = (case map_of d k of None \<Rightarrow> dflt | Some v \<Rightarrow> v)"

fun dict_set :: "py_dict \<Rightarrow> string \<Rightarrow> pyval \<Rightarrow> py_dict" where
  "dict_set [] k v = [(k, v)]"
| "dict_set ((k', v') # d) k v =
     (if k' = k then (k, v) # d else (k', v') # dict_set d k v)"

fun dict_update :: "py_dict \<Rightarrow> py_dict \<Rightarrow> py_dict" where
  "dict_update d [] = d"
| "dict_update d ((k, v) # e) = dict_update (dict_set d k v) e"

definition keys :: "py_dict \<Rightarrow> string list" where
  "keys d = map fst d"

subsection \<open>Strings: \<^verbatim>\<open>lower()\<close> and \<^verbatim>\<open>in\<close>\<close>

text \<open>Strings are byte strings here: \<open>lower\<close> changes the letters A to Z only.\<close>

definition lower_char :: "char \<Rightarrow> char" where
  "lower_char c =
     (case map_of (zip ''ABCDEFGHIJKLMNOPQRSTUVWXYZ'' ''abcdefghijklmnopqrstuvwxyz'') c of
        None \<Rightarrow> c
      | Some l \<Rightarrow> l)"

definition lower :: "string \<Rightarrow> string" where
  "lower s = map lower_char s"

fun startswith :: "string \<Rightarrow> string \<Rightarrow> bool" where
  "startswith s [] = True"
| "startswith [] (p # ps) = False"
| "startswith (c # cs) (p # ps) = (c = p \<and> startswith cs ps)"

text \<open>\<open>contains sub s\<close> is \<^verbatim>\<open>sub in s\<close>.\<close>

fun contains :: "string \<Rightarrow> string \<Rightarrow> bool" where
  "contains sub [] = (sub = [])"
| "contains sub (c # cs) = (startswith (c # cs) sub \<or> contains sub cs)"

subsection \<open>The external objects\<close>

text \<open>
  An iteration yields its items and then ends, or raises: \<open>Iteration xs None\<close> yields
  \<open>xs\<close>, \<open>Iteration xs (Some e)\<close> yields \<open>xs\<close> and then raises \<open>e\<close> (with no items when the
  object cannot be iterated at all). \<open>'a py_iter\<close> is an attribute the script tests with
  \<^verbatim>\<open>hasattr\<close> and then iterates: \<open>None\<close> when the attribute is missing.
\<close>

type_synonym 'a raising = "py_exception + 'a"

datatype 'a iteration = Iteration "'a list" "py_exception option"

type_synonym 'a py_iter = "'a iteration option"

text \<open>A table: cells are given by their \<^verbatim>\<open>str\<close>.\<close>

record table_obj =
  header :: "string py_iter"
  rows :: "(string iteration) py_iter"
  caption :: "string option"

text \<open>
  A figure. \<open>image\<close> is \<open>None\<close> without the attribute; otherwise what the guarded block
  of the script comes to: \<open>Inl e\<close> when the import of PIL or the saving raises \<open>e\<close>,
  \<open>Inr None\<close> when the image is no PIL image, \<open>Inr (Some b)\<close> when the PNG bytes encode
  to the base64 text \<open>b\<close>.
\<close>

record figure_obj =
  fig_caption :: "string option"
  image :: "(string option) raising option"

record bbox_obj =
  bbox_x :: "pyval raising"
  bbox_y :: "pyval raising"
  bbox_width :: "pyval raising"
  bbox_height :: "pyval raising"

text \<open>
  A layout element: \<open>etype\<close> is \<^verbatim>\<open>str(element.type)\<close>, \<open>level\<close> is what
  \<^verbatim>\<open>int(element.level)\<close> comes to, \<open>etext\<close> and \<open>econtent\<close> are the \<^verbatim>\<open>str\<close> of the
  attributes \<^verbatim>\<open>text\<close> and \<^verbatim>\<open>content\<close>.
\<close>

record layout_obj =
  etype :: "string option"
  level :: "int raising option"
  etext :: "string option"
  econtent :: "string option"
  bbox :: "bbox_obj option"
  page :: "pyval option"

text \<open>
  The result of the conversion. \<open>metadata\<close> is \<open>None\<close> without the attribute,
  \<open>Some (Inl e)\<close> when its \<^verbatim>\<open>get\<close> raises, \<open>Some (Inr m)\<close> when it is the mapping \<open>m\<close>.
\<close>

record result_obj =
  is_document :: bool
  to_markdown :: "pyval raising"
  to_text :: "pyval raising"
  metadata :: "py_dict raising option"
  tables :: "table_obj py_iter"
  figures :: "figure_obj py_iter"
  layout :: "layout_obj py_iter"

text \<open>
  The input path with what the file system answers: \<^verbatim>\<open>str(p)\<close>, \<^verbatim>\<open>p.name\<close>,
  \<^verbatim>\<open>p.exists()\<close> and the size \<^verbatim>\<open>p.stat()\<close> reports when the file exists.
\<close>

record path_obj =
  path_str :: string
  name :: string
  exists :: bool
  st_size :: int

definition stat :: "path_obj \<Rightarrow> int raising" where
  "stat p =
     (if exists p then Inr (st_size p)
      else Inl (PyException (''[Errno 2] No such file or directory: '' @ [CHR 0x27] @ path_str p @ [CHR 0x27])))"

subsection \<open>Raising and looping\<close>

text \<open>
  \<open>and_then r f\<close> continues with \<open>f\<close> unless \<open>r\<close> raised; \<open>collect\<close> runs over results
  each of which may be a raise: the first exception ends it. \<open>for_each body it\<close> is the loop
  \<^verbatim>\<open>for x in it: body(x)\<close>: the body runs on every item the iteration yields, in order,
  before the iteration raises, if it does.
\<close>

definition and_then :: "'a raising \<Rightarrow> ('a \<Rightarrow> 'b raising) \<Rightarrow> 'b raising" where
  "and_then r f = (case r of Inl e \<Rightarrow> Inl e | Inr v \<Rightarrow> f v)"

fun collect :: "('a raising) list \<Rightarrow> ('a list) raising" where
  "collect [] = Inr []"
| "collect (r # rs) =
     (case r of
        Inl e \<Rightarrow> Inl e
      | Inr v \<Rightarrow> (case collect rs of Inl e \<Rightarrow> Inl e | Inr vs \<Rightarrow> Inr (v # vs)))"

definition for_each :: "('a \<Rightarrow> 'b raising) \<Rightarrow> 'a iteration \<Rightarrow> ('b list) raising" where
  "for_each body it =
     (case it of
        Iteration xs ending \<Rightarrow>
          and_then (collect (map body xs)) (\<lambda>vs.
            case ending of None \<Rightarrow> Inr vs | Some e \<Rightarrow> Inl e))"

text \<open>\<^verbatim>\<open>d[k]\<close> raises KeyError, whose \<^verbatim>\<open>str\<close> is the quoted key.\<close>

definition dict_getitem :: "py_dict \<Rightarrow> string \<Rightarrow> pyval raising" where
  "dict_getitem d k =
     (case map_of d k of
        None \<Rightarrow> Inl (PyException ([CHR 0x27] @ k @ [CHR 0x27]))
      | Some v \<Rightarrow> Inr v)"

text \<open>\<^verbatim>\<open>d[k].append(v)\<close> for each \<open>v\<close> of \<open>vs\<close>, \<^verbatim>\<open>d[k][k2] = v\<close> and \<^verbatim>\<open>d[k].update(e)\<close>.\<close>

definition append_all :: "py_dict \<Rightarrow> string \<Rightarrow> pyval list \<Rightarrow> py_dict" where
  "append_all d k vs =
     dict_set d k (case dict_get d k PNone of PList xs \<Rightarrow> PList (xs @ vs) | other \<Rightarrow> other)"

definition set_nested :: "py_dict \<Rightarrow> string \<Rightarrow> string \<Rightarrow> pyval \<Rightarrow> py_dict" where
  "set_nested d k k2 v =
     dict_set d k (case dict_get d k PNone of PDict m \<Rightarrow> PDict (dict_set m k2 v) | other \<Rightarrow> other)"

definition update_nested :: "py_dict \<Rightarrow> string \<Rightarrow> py_dict \<Rightarrow> py_dict" where
  "update_nested d k e =
     dict_set d k (case dict_get d k PNone of PDict m \<Rightarrow> PDict (dict_update m e) | other \<Rightarrow> other)"

subsection \<open>\<^verbatim>\<open>DoclingProcessor.initialize_converter\<close>\<close>

text \<open>
  The pipeline options handed to the converter: a field is \<open>Some True\<close> when the script
  sets it and \<open>None\<close> when it leaves the library's default.
\<close>

record pipeline_options =
  table_extraction :: "bool option"
  table_structure_recognition :: "bool option"
  figure_extraction :: "bool option"
  equation_extraction :: "bool option"
  layout_preservation :: "bool option"

definition PipelineOptions :: pipeline_options where
  "PipelineOptions =
     \<lparr>table_extraction = None, table_structure_recognition = None, figure_extraction = None,
      equation_extraction = None, layout_preservation = None\<rparr>"

definition pipeline_options_for :: "py_dict \<Rightarrow> pipeline_options" where
  "pipeline_options_for options =
     (let po = PipelineOptions;
          po = (if truthy (dict_get options ''extract_tables'' (PBool True))
                then po\<lparr>table_extraction := Some True, table_structure_recognition := Some True\<rparr>
                else po);
          po = (if truthy (dict_get options ''extract_figures'' (PBool True))
                then po\<lparr>figure_extraction := Some True\<rparr> else po);
          po = (if truthy (dict_get options ''extract_equations'' (PBool False))
                then po\<lparr>equation_extraction := Some True\<rparr> else po);
          po = (if truthy (dict_get options ''preserve_layout'' (PBool True))
                then po\<lparr>layout_preservation := Some True\<rparr> else po)
      in po)"

text \<open>
  The converter is what its \<^verbatim>\<open>convert(path)\<close> comes to; the library's constructor
  \<^verbatim>\<open>DocumentConverter(pipeline_options=...)\<close> returns a converter or raises. The
  processor holds the converter once it is built.
\<close>

type_synonym converter_fn = "string \<Rightarrow> result_obj raising"

type_synonym constructor_fn = "pipeline_options \<Rightarrow> converter_fn raising"

record DoclingProcessor =
  converter :: "converter_fn option"

definition initialize_converter ::
  "constructor_fn \<Rightarrow> DoclingProcessor \<Rightarrow> py_dict \<Rightarrow> DoclingProcessor raising" where
  "initialize_converter construct self options =
     and_then (construct (pipeline_options_for options)) (\<lambda>c.
       Inr (self\<lparr>converter := Some c\<rparr>))"

subsection \<open>\<^verbatim>\<open>DoclingProcessor.process_document\<close>: the loop bodies\<close>

definition table_data :: "table_obj \<Rightarrow> py_dict raising" where
  "table_data table =
     (let td = [(''headers'', PList []), (''rows'', PList []), (''caption'', PStr []),
                (''confidence'', PFloat 979 (- 3))]
      in and_then
           (case header table of
              None \<Rightarrow> Inr td
            | Some cells \<Rightarrow>
                and_then (for_each Inr cells) (\<lambda>cs.
                  Inr (dict_set td ''headers'' (PList (map PStr cs)))))
           (\<lambda>td. and_then
              (case rows table of
                 None \<Rightarrow> Inr td
               | Some it \<Rightarrow>
                   and_then (for_each (for_each Inr) it) (\<lambda>rws.
                     Inr (append_all td ''rows'' (map (\<lambda>r. PList (map PStr r)) rws))))
              (\<lambda>td. Inr (case caption table of
                            None \<Rightarrow> td
                          | Some c \<Rightarrow> dict_set td ''caption'' (PStr c)))))"

definition figure_data :: "figure_obj \<Rightarrow> log_record list \<times> py_dict" where
  "figure_data figure =
     (let fd = [(''caption'', PStr []), (''type'', PStr ''figure''), (''base64'', PNone)];
          fd = (case fig_caption figure of
                  None \<Rightarrow> fd
                | Some c \<Rightarrow> dict_set fd ''caption'' (PStr c))
      in case image figure of
           None \<Rightarrow> ([], fd)
         | Some (Inl e) \<Rightarrow> ([(WARNING, ''Could not extract figure image: '' @ str_exc e)], fd)
         | Some (Inr None) \<Rightarrow> ([], fd)
         | Some (Inr (Some b)) \<Rightarrow> ([], dict_set fd ''base64'' (PStr b)))"

text \<open>
  The body of the layout loop, in the four parts the source marks: determine the element
  type (with the header level), extract the content, the bounding box and the page number.
\<close>

definition determine_type :: "layout_obj \<Rightarrow> py_dict \<Rightarrow> py_dict raising" where
  "determine_type element le =
     (case etype element of
        None \<Rightarrow> Inr le
      | Some t \<Rightarrow>
          (let element_type = lower t in
           if contains ''header'' element_type \<or> contains ''heading'' element_type then
             (let le = dict_set le ''type'' (PStr ''header'') in
              case level element of
                None \<Rightarrow> Inr le
              | Some l \<Rightarrow> and_then l (\<lambda>n. Inr (dict_set le ''level'' (PInt n))))
           else if contains ''table'' element_type then
             Inr (dict_set le ''type'' (PStr ''table''))
           else if contains ''figure'' element_type \<or> contains ''image'' element_type then
             Inr (dict_set le ''type'' (PStr ''figure''))
           else if contains ''list'' element_type then
             Inr (dict_set le ''type'' (PStr ''list''))
           else if contains ''code'' element_type then
             Inr (dict_set le ''type'' (PStr ''code''))
           else if contains ''footer'' element_type then
             Inr (dict_set le ''type'' (PStr ''footer''))
           else if contains ''caption'' element_type then
             Inr (dict_set le ''type'' (PStr ''caption''))
           else Inr le))"

definition extract_content :: "layout_obj \<Rightarrow> py_dict \<Rightarrow> py_dict" where
  "extract_content element le =
     (case etext element of
        Some s \<Rightarrow> dict_set le ''content'' (PStr s)
      | None \<Rightarrow>
          (case econtent element of
             Some s \<Rightarrow> dict_set le ''content'' (PStr s)
           | None \<Rightarrow> le))"

definition extract_bbox :: "layout_obj \<Rightarrow> py_dict \<Rightarrow> py_dict raising" where
  "extract_bbox element le =
     (case bbox element of
        None \<Rightarrow> Inr le
      | Some b \<Rightarrow>
          and_then (bbox_x b) (\<lambda>vx.
          and_then (bbox_y b) (\<lambda>vy.
          and_then (bbox_width b) (\<lambda>vw.
          and_then (bbox_height b) (\<lambda>vh.
            Inr (set_nested le ''metadata'' ''bbox''
                   (PDict [(''x'', vx), (''y'', vy), (''width'', vw), (''height'', vh)])))))))"

definition extract_page :: "layout_obj \<Rightarrow> py_dict \<Rightarrow> py_dict" where
  "extract_page element le =
     (case page element of
        None \<Rightarrow> le
      | Some p \<Rightarrow> set_nested le ''metadata'' ''page'' p)"

definition layout_element :: "layout_obj \<Rightarrow> py_dict raising" where
  "layout_element element =
     (let le = [(''type'', PStr ''paragraph''), (''content'', PStr []), (''level'', PNone),
                (''metadata'', PDict [])]
      in and_then (determine_type element le) (\<lambda>le.
         and_then (extract_bbox element (extract_content element le)) (\<lambda>le.
           Inr (extract_page element le))))"

subsection \<open>\<^verbatim>\<open>DoclingProcessor.process_document\<close>\<close>

text \<open>The steps of the guarded block, in the order of the source, each on the output so far.\<close>

definition content_step :: "py_dict \<Rightarrow> result_obj \<Rightarrow> py_dict \<Rightarrow> py_dict raising" where
  "content_step options result output =
     and_then (dict_getitem options ''output_format'') (\<lambda>fmt.
       if fmt = PStr ''markdown'' then
         and_then (to_markdown result) (\<lambda>c. Inr (dict_set output ''content'' c))
       else if fmt = PStr ''text'' then
         and_then (to_text result) (\<lambda>c. Inr (dict_set output ''content'' c))
       else
         and_then (to_text result) (\<lambda>c. Inr (dict_set output ''content'' c)))"

definition metadata_step :: "result_obj \<Rightarrow> py_dict \<Rightarrow> py_dict raising" where
  "metadata_step result output =
     (case metadata result of
        None \<Rightarrow> Inr output
      | Some md \<Rightarrow>
          and_then md (\<lambda>m.
            Inr (update_nested output ''metadata''
                   [(''title'', dict_get m ''title'' (PStr [])),
                    (''author'', dict_get m ''author'' (PStr [])),
                    (''pages'', dict_get m ''page_count'' (PInt 0))])))"

definition tables_step :: "py_dict \<Rightarrow> result_obj \<Rightarrow> py_dict \<Rightarrow> py_dict raising" where
  "tables_step options result output =
     (if truthy (dict_get options ''extract_tables'' (PBool True)) then
        (case tables result of
           None \<Rightarrow> Inr output
         | Some it \<Rightarrow>
             and_then (for_each table_data it) (\<lambda>tds.
               Inr (append_all output ''tables'' (map PDict tds))))
      else Inr output)"

definition figures_step ::
  "py_dict \<Rightarrow> result_obj \<Rightarrow> py_dict \<Rightarrow> log_record list \<times> py_dict raising" where
  "figures_step options result output =
     (if truthy (dict_get options ''extract_figures'' (PBool True)) then
        (case figures result of
           None \<Rightarrow> ([], Inr output)
         | Some (Iteration fs ending) \<Rightarrow>
             (concat (map (\<lambda>f. fst (figure_data f)) fs),
              case ending of
                None \<Rightarrow>
                  Inr (append_all output ''figures''
                         (map (\<lambda>f. PDict (snd (figure_data f))) fs))
              | Some e \<Rightarrow> Inl e))
      else ([], Inr output))"

definition layout_step :: "py_dict \<Rightarrow> result_obj \<Rightarrow> py_dict \<Rightarrow> py_dict raising" where
  "layout_step options result output =
     (if truthy (dict_get options ''preserve_layout'' (PBool True)) then
        (case layout result of
           None \<Rightarrow> Inr output
         | Some it \<Rightarrow>
             and_then (for_each layout_element it) (\<lambda>les.
               Inr (append_all output ''layout'' (map PDict les))))
      else Inr output)"

text \<open>
  What follows the conversion inside the guarded block: the output dictionary is built
  and, for a Document, filled step by step. The warnings logged on the way are kept
  also when the figures iteration or a later step raises.
\<close>

definition flatten ::
  "path_obj \<Rightarrow> py_dict \<Rightarrow> result_obj \<Rightarrow> log_record list \<times> py_dict raising" where
  "flatten input_path options result =
     (case stat input_path of
        Inl e \<Rightarrow> ([], Inl e)
      | Inr file_size \<Rightarrow>
          (let output =
                 [(''success'', PBool True),
                  (''format'', dict_get options ''output_format'' (PStr ''json'')),
                  (''metadata'', PDict [(''filename'', PStr (name input_path)),
                                       (''file_size'', PInt file_size),
                                       (''pages'', PInt 0)]),
                  (''content'', PStr []),
                  (''tables'', PList []),
                  (''figures'', PList []),
                  (''layout'', PList [])]
           in if is_document result then
                (case and_then (content_step options result output) (\<lambda>output.
                      and_then (metadata_step result output) (\<lambda>output.
                        tables_step options result output)) of
                   Inl e \<Rightarrow> ([], Inl e)
                 | Inr output \<Rightarrow>
                     (case figures_step options result output of
                        (warnings, Inl e) \<Rightarrow> (warnings, Inl e)
                      | (warnings, Inr output) \<Rightarrow>
                          (warnings, layout_step options result output)))
              else ([], Inr output)))"

definition failure :: "py_dict \<Rightarrow> py_exception \<Rightarrow> py_dict" where
  "failure options e =
     [(''success'', PBool False),
      (''error'', PStr (str_exc e)),
      (''format'', dict_get options ''output_format'' (PStr ''json''))]"

text \<open>
  The converter is built before the guarded block: an exception of the constructor leaves
  \<open>process_document\<close> uncaught (\<open>Inl\<close>). Inside the block every exception becomes the
  failure dictionary.
\<close>

definition process_document ::
  "constructor_fn \<Rightarrow> DoclingProcessor \<Rightarrow> path_obj \<Rightarrow> py_dict
     \<Rightarrow> (DoclingProcessor \<times> log_record list \<times> py_dict) raising" where
  "process_document construct self input_path options =
     and_then
       (case converter self of
          None \<Rightarrow> initialize_converter construct self options
        | Some c \<Rightarrow> Inr self)
       (\<lambda>self.
          let started = [(INFO, ''Processing document: '' @ path_str input_path)]
          in case (case converter self of
                     None \<Rightarrow>
                       Inl (PyException
                              ([CHR 0x27] @ ''NoneType'' @ [CHR 0x27] @
                               '' object has no attribute '' @
                               [CHR 0x27] @ ''convert'' @ [CHR 0x27]))
                   | Some convert \<Rightarrow> convert (path_str input_path)) of
               Inl e \<Rightarrow>
                 Inr (self, started @ [(ERROR, ''Error processing document: '' @ str_exc e)],
                      failure options e)
             | Inr result \<Rightarrow>
                 (case flatten input_path options result of
                    (warnings, Inl e) \<Rightarrow>
                      Inr (self,
                           started @ warnings @
                             [(ERROR, ''Error processing document: '' @ str_exc e)],
                           failure options e)
                  | (warnings, Inr output) \<Rightarrow> Inr (self, started @ warnings, output)))"

subsection \<open>\<^verbatim>\<open>main\<close>\<close>

datatype format_choice = Text | Markdown | Json

fun format_str :: "format_choice \<Rightarrow> string" where
  "format_str Text = ''text''"
| "format_str Markdown = ''markdown''"
| "format_str Json = ''json''"

record args =
  input_file :: path_obj
  output_format :: format_choice
  preserve_layout :: bool
  extract_tables :: bool
  extract_figures :: bool
  extract_equations :: bool
  output_file :: "string option"

text \<open>
  What \<^verbatim>\<open>parse_args\<close> makes of the command line: it exits with a usage message, it
  prints the help and exits, or it returns the arguments.
\<close>

datatype command_line = Usage_error | Help | Parsed args

text \<open>
  The operating system at the output: what opening a path for writing raises, and what
  writing the text to the opened file or to standard output raises, \<open>None\<close> when it
  completes.
\<close>

record os_env =
  open_raises :: "string \<Rightarrow> py_exception option"
  write_raises :: "py_exception option"

text \<open>
  What a run leaves behind: the exit code, what was written and where (\<open>Truncated\<close> is an
  output cut short, possibly empty), the log, the dictionary \<open>process_document\<close> returned
  (\<open>None\<close> when it returned none), and the uncaught exception that ended the run, if
  one did.
\<close>

datatype payload = JsonIndented py_dict | JsonCompact py_dict | Raw pyval | Help_text | Truncated

datatype emission = ToFile string payload | ToStdout payload

datatype crash =
    Construction py_exception
  | Open_failed py_exception
  | Not_serialisable
  | Not_text
  | Write_failed py_exception

record outcome =
  exit_code :: int
  emitted :: "emission option"
  logs :: "log_record list"
  result :: "py_dict option"
  crashed :: "crash option"

text \<open>\<^verbatim>\<open>json\<close> serialises every value but an object of no JSON type.\<close>

fun serialisable :: "pyval \<Rightarrow> bool" where
  "serialisable (PObj s) = False"
| "serialisable (PList xs) = list_all serialisable xs"
| "serialisable (PDict kvs) = list_all (\<lambda>kv. serialisable (snd kv)) kvs"
| "serialisable v = True"

definition cli_options :: "args \<Rightarrow> py_dict" where
  "cli_options a =
     [(''output_format'', PStr (format_str (output_format a))),
      (''preserve_layout'', PBool (preserve_layout a)),
      (''extract_tables'', PBool (extract_tables a)),
      (''extract_figures'', PBool (extract_figures a)),
      (''extract_equations'', PBool (extract_equations a))]"

text \<open>
  The output step of \<open>main\<close>, outside any guarded block: to the output file when one is
  given, else to standard output; JSON when the format is json, else the content. A file
  takes text only; \<^verbatim>\<open>print\<close> takes any value.
\<close>

definition print_output ::
  "os_env \<Rightarrow> args \<Rightarrow> py_dict \<Rightarrow> emission option \<times> log_record list \<times> crash option" where
  "print_output os a res =
     (if output_format a = Json then
        (if \<not> serialisable (PDict res) then (None, [], Some Not_serialisable)
         else case write_raises os of
                Some e \<Rightarrow> (Some (ToStdout Truncated), [], Some (Write_failed e))
              | None \<Rightarrow> (Some (ToStdout (JsonCompact res)), [], None))
      else
        (case write_raises os of
           Some e \<Rightarrow> (Some (ToStdout Truncated), [], Some (Write_failed e))
         | None \<Rightarrow> (Some (ToStdout (Raw (dict_get res ''content'' (PStr [])))), [], None)))"

definition write_file ::
  "os_env \<Rightarrow> args \<Rightarrow> string \<Rightarrow> py_dict
     \<Rightarrow> emission option \<times> log_record list \<times> crash option" where
  "write_file os a output_path res =
     (case open_raises os output_path of
        Some e \<Rightarrow> (None, [], Some (Open_failed e))
      | None \<Rightarrow>
          (if output_format a = Json then
             (if \<not> serialisable (PDict res) then
                (Some (ToFile output_path Truncated), [], Some Not_serialisable)
              else case write_raises os of
                     Some e \<Rightarrow> (Some (ToFile output_path Truncated), [], Some (Write_failed e))
                   | None \<Rightarrow>
                       (Some (ToFile output_path (JsonIndented res)),
                        [(INFO, ''Output written to: '' @ output_path)], None))
           else
             (case dict_get res ''content'' (PStr []) of
                PStr s \<Rightarrow>
                  (case write_raises os of
                     Some e \<Rightarrow>
                       (Some (ToFile output_path Truncated), [], Some (Write_failed e))
                   | None \<Rightarrow>
                       (Some (ToFile output_path (Raw (PStr s))),
                        [(INFO, ''Output written to: '' @ output_path)], None))
              | other \<Rightarrow> (Some (ToFile output_path Truncated), [], Some Not_text))))"

definition write_output ::
  "os_env \<Rightarrow> args \<Rightarrow> py_dict \<Rightarrow> emission option \<times> log_record list \<times> crash option" where
  "write_output os a res =
     (case output_file a of
        Some output_path \<Rightarrow>
          if output_path \<noteq> [] then write_file os a output_path res
          else print_output os a res
      | None \<Rightarrow> print_output os a res)"

text \<open>
  A run. An uncaught exception ends it with exit code 1; \<^verbatim>\<open>argparse\<close> exits with 2 on a
  usage error and with 0 after the help.
\<close>

definition main :: "os_env \<Rightarrow> constructor_fn \<Rightarrow> command_line \<Rightarrow> outcome" where
  "main os construct cl =
     (case cl of
        Usage_error \<Rightarrow>
          \<lparr>exit_code = 2, emitted = None, logs = [], result = None, crashed = None\<rparr>
      | Help \<Rightarrow>
          \<lparr>exit_code = 0, emitted = Some (ToStdout Help_text), logs = [], result = None,
           crashed = None\<rparr>
      | Parsed a \<Rightarrow>
          (let input_path = input_file a in
           if \<not> exists input_path then
             \<lparr>exit_code = 1, emitted = None,
              logs = [(ERROR, ''Input file not found: '' @ path_str input_path)],
              result = None, crashed = None\<rparr>
           else
             (let options = cli_options a;
                  processor = \<lparr>converter = None\<rparr>
              in case process_document construct processor input_path options of
                   Inl e \<Rightarrow>
                     \<lparr>exit_code = 1, emitted = None, logs = [], result = None,
                      crashed = Some (Construction e)\<rparr>
                 | Inr (processor, plogs, res) \<Rightarrow>
                     (case write_output os a res of
                        (em, wlogs, Some c) \<Rightarrow>
                          \<lparr>exit_code = 1, emitted = em, logs = plogs @ wlogs,
                           result = Some res, crashed = Some c\<rparr>
                      | (em, wlogs, None) \<Rightarrow>
                          \<lparr>exit_code =
                             (if truthy (dict_get res ''success'' (PBool False)) then 0 else 1),
                           emitted = em, logs = plogs @ wlogs, result = Some res,
                           crashed = None\<rparr>))))"

subsection \<open>Views of a run\<close>

text \<open>
  The dictionary of a successful flattening by its seven values, the dictionary the guarded
  block starts from, the conversion call of a run of \<open>main\<close> (\<open>Inl\<close> when the constructor
  raises, so that nothing is converted), the dictionary its call of \<open>process_document\<close>
  returns, and the JSON object a run writes (none when the format is not json, or when
  nothing or not all of it is written).
\<close>

definition success_output ::
  "pyval \<Rightarrow> pyval \<Rightarrow> pyval \<Rightarrow> pyval \<Rightarrow> pyval \<Rightarrow> pyval \<Rightarrow> py_dict" where
  "success_output f m c t fi l =
     [(''success'', PBool True), (''format'', f), (''metadata'', m), (''content'', c),
      (''tables'', t), (''figures'', fi), (''layout'', l)]"

definition initial_output :: "path_obj \<Rightarrow> py_dict \<Rightarrow> py_dict" where
  "initial_output p options =
     success_output (dict_get options ''output_format'' (PStr ''json''))
       (PDict [(''filename'', PStr (name p)), (''file_size'', PInt (st_size p)),
               (''pages'', PInt 0)])
       (PStr []) (PList []) (PList []) (PList [])"

definition conversion :: "constructor_fn \<Rightarrow> args \<Rightarrow> (result_obj raising) raising" where
  "conversion construct a =
     (case construct (pipeline_options_for (cli_options a)) of
        Inl e \<Rightarrow> Inl e
      | Inr convert \<Rightarrow> Inr (convert (path_str (input_file a))))"

definition processed :: "constructor_fn \<Rightarrow> args \<Rightarrow> py_dict option" where
  "processed construct a =
     (case process_document construct \<lparr>converter = None\<rparr> (input_file a) (cli_options a) of
        Inl e \<Rightarrow> None
      | Inr (processor, plogs, res) \<Rightarrow> Some res)"

fun payload_json :: "payload \<Rightarrow> py_dict option" where
  "payload_json (JsonIndented d) = Some d"
| "payload_json (JsonCompact d) = Some d"
| "payload_json (Raw v) = None"
| "payload_json Help_text = None"
| "payload_json Truncated = None"

fun emitted_json :: "emission option \<Rightarrow> py_dict option" where
  "emitted_json None = None"
| "emitted_json (Some (ToFile f pl)) = payload_json pl"
| "emitted_json (Some (ToStdout pl)) = payload_json pl"

subsection \<open>Layout classification as the specification words it\<close>

text \<open>
  The type tags with their keywords in precedence order; an element type is classified by
  the first entry one of whose keywords occurs in the lower-cased type string, and is a
  paragraph when there is none.
\<close>

definition type_precedence :: "(string list \<times> string) list" where
  "type_precedence =
     [([''header'', ''heading''], ''header''),
      ([''table''], ''table''),
      ([''figure'', ''image''], ''figure''),
      ([''list''], ''list''),
      ([''code''], ''code''),
      ([''footer''], ''footer''),
      ([''caption''], ''caption'')]"

fun first_match :: "(string list \<times> string) list \<Rightarrow> string \<Rightarrow> string" where
  "first_match [] s = ''paragraph''"
| "first_match ((kws, tag) # rest) s =
     (if list_ex (\<lambda>kw. contains kw s) kws then tag else first_match rest s)"

definition classify :: "string \<Rightarrow> string" where
  "classify t = first_match type_precedence (lower t)"

subsection \<open>Example inputs\<close>

text \<open>
  A report with one table, three figures (the first fails to encode, the second has no
  image) and eight layout elements, converted with every extraction switched on.
\<close>

definition ex_path :: path_obj where
  "ex_path =
     \<lparr>path_str = ''docs/report.pdf'', name = ''report.pdf'', exists = True, st_size = 2048\<rparr>"

definition ex_element :: "string \<Rightarrow> layout_obj" where
  "ex_element t =
     \<lparr>etype = Some t, level = None, etext = Some ''body'', econtent = None, bbox = None,
      page = Some (PInt 1)\<rparr>"

definition ex_figures :: "figure_obj list" where
  "ex_figures =
     [\<lparr>fig_caption = Some ''F1'',
       image = Some (Inl (PyException ''cannot write mode P as PNG''))\<rparr>,
      \<lparr>fig_caption = None, image = None\<rparr>,
      \<lparr>fig_caption = Some ''F3'', image = Some (Inr (Some ''iVBORw0KGgo=''))\<rparr>]"

definition ex_layout :: "layout_obj list" where
  "ex_layout =
     [(ex_element ''Heading-1'')\<lparr>level := Some (Inr 1)\<rparr>,
      ex_element ''Table'',
      ex_element ''Image'',
      ex_element ''ListItem'',
      ex_element ''CodeBlock'',
      ex_element ''Footer'',
      ex_element ''Caption'',
      (ex_element ''Paragraph'')\<lparr>level := Some (Inr 2)\<rparr>]"

definition ex_document :: result_obj where
  "ex_document =
     \<lparr>is_document = True,
      to_markdown = Inr (PStr ''# Report''),
      to_text = Inr (PStr ''Report''),
      metadata = Some (Inr [(''title'', PStr ''Report''), (''page_count'', PInt 3)]),
      tables = Some (Iteration
                       [\<lparr>header = Some (Iteration [''k'', ''v''] None),
                         rows = Some (Iteration [Iteration [''a'', ''1''] None] None),
                         caption = Some ''T1''\<rparr>] None),
      figures = Some (Iteration ex_figures None),
      layout = Some (Iteration ex_layout None)\<rparr>"

definition ex_args :: args where
  "ex_args =
     \<lparr>input_file = ex_path, output_format = Json, preserve_layout = True,
      extract_tables = True, extract_figures = True, extract_equations = False,
      output_file = None\<rparr>"

text \<open>
  A library whose converter returns \<open>r\<close> whatever its pipeline options, one whose converter
  raises \<open>e\<close>, and one whose constructor raises \<open>e\<close>; an operating system where opening
  and writing complete, and an output file in a directory that does not exist.
\<close>

definition returns :: "result_obj \<Rightarrow> constructor_fn" where
  "returns r po = Inr (\<lambda>path. Inr r)"

definition raises :: "py_exception \<Rightarrow> constructor_fn" where
  "raises e po = Inr (\<lambda>path. Inl e)"

definition unbuildable :: "py_exception \<Rightarrow> constructor_fn" where
  "unbuildable e po = Inl e"

definition ex_os :: os_env where
  "ex_os = \<lparr>open_raises = (\<lambda>p. None), write_raises = None\<rparr>"

definition ex_os_no_dir :: os_env where
  "ex_os_no_dir =
     \<lparr>open_raises = (\<lambda>p. if p = ''no_such_dir/out.json''
                           then Some (PyException
                                  (''[Errno 2] No such file or directory: '' @ [CHR 0x27] @
                                   ''no_such_dir/out.json'' @ [CHR 0x27]))
                           else None),
      write_raises = None\<rparr>"

section \<open>Properties\<close>

subsection \<open>The steps of the flattening\<close>

lemma set_content:
  "dict_set (success_output f m c t fi l) ''content'' c' = success_output f m c' t fi l"
  by (simp add: success_output_def)

lemma update_metadata:
  "update_nested (success_output f (PDict md) c t fi l) ''metadata'' e =
     success_output f (PDict (dict_update md e)) c t fi l"
  by (simp add: success_output_def update_nested_def dict_get_def)

lemma append_tables:
  "append_all (success_output f m c (PList ts) fi l) ''tables'' vs =
     success_output f m c (PList (ts @ vs)) fi l"
  by (simp add: success_output_def append_all_def dict_get_def)

lemma append_figures:
  "append_all (success_output f m c t (PList fs) l) ''figures'' vs =
     success_output f m c t (PList (fs @ vs)) l"
  by (simp add: success_output_def append_all_def dict_get_def)

lemma append_layout:
  "append_all (success_output f m c t fi (PList ls)) ''layout'' vs =
     success_output f m c t fi (PList (ls @ vs))"
  by (simp add: success_output_def append_all_def dict_get_def)

lemma and_then_Inr_iff:
  "and_then r f = Inr v \<longleftrightarrow> (\<exists>u. r = Inr u \<and> f u = Inr v)"
  by (cases r) (simp_all add: and_then_def)

lemma and_then_Inl_iff:
  "and_then r f = Inl e \<longleftrightarrow> r = Inl e \<or> (\<exists>u. r = Inr u \<and> f u = Inl e)"
  by (cases r) (simp_all add: and_then_def)

lemma content_step_Inr:
  assumes "content_step options r (success_output f m c t fi l) = Inr out"
  shows "\<exists>fmt c'. dict_getitem options ''output_format'' = Inr fmt \<and>
           (if fmt = PStr ''markdown'' then to_markdown r else to_text r) = Inr c' \<and>
           out = success_output f m c' t fi l"
  using assms
  by (auto simp: content_step_def and_then_Inr_iff set_content split: if_splits)

lemma metadata_step_Inr:
  assumes "metadata_step r (success_output f (PDict md) c t fi l) = Inr out"
  shows "\<exists>md'. out = success_output f (PDict md') c t fi l \<and>
           (case metadata r of
              None \<Rightarrow> md' = md
            | Some x \<Rightarrow> \<exists>mm. x = Inr mm \<and>
                md' = dict_update md
                        [(''title'', dict_get mm ''title'' (PStr [])),
                         (''author'', dict_get mm ''author'' (PStr [])),
                         (''pages'', dict_get mm ''page_count'' (PInt 0))])"
  using assms
  by (auto simp: metadata_step_def and_then_Inr_iff update_metadata split: option.splits)

lemma for_each_Inr:
  "for_each body it = Inr vs \<Longrightarrow> \<exists>xs. it = Iteration xs None \<and> collect (map body xs) = Inr vs"
  by (cases it) (auto simp: for_each_def and_then_Inr_iff split: option.splits)

lemma for_each_None: "for_each body (Iteration xs None) = collect (map body xs)"
  by (cases "collect (map body xs)") (simp_all add: for_each_def and_then_def)

lemma tables_step_Inr:
  assumes "tables_step options r (success_output f m c (PList ts) fi l) = Inr out"
  shows "\<exists>ts'. out = success_output f m c (PList (ts @ ts')) fi l \<and>
           (if truthy (dict_get options ''extract_tables'' (PBool True))
            then (case tables r of
                    None \<Rightarrow> ts' = []
                  | Some x \<Rightarrow> \<exists>tbs tds. x = Iteration tbs None \<and> collect (map table_data tbs) = Inr tds \<and>
                      ts' = map PDict tds)
            else ts' = [])"
  using assms
  by (auto simp: tables_step_def and_then_Inr_iff append_tables dest!: for_each_Inr
      split: option.splits if_splits)

lemma figures_step_Inr:
  assumes "figures_step options r (success_output f m c t (PList fs) l) = (w, Inr out)"
  shows "\<exists>fs'. out = success_output f m c t (PList (fs @ fs')) l \<and>
           (if truthy (dict_get options ''extract_figures'' (PBool True))
            then (case figures r of
                    None \<Rightarrow> fs' = [] \<and> w = []
                  | Some x \<Rightarrow> \<exists>figs. x = Iteration figs None \<and>
                      fs' = map (\<lambda>f. PDict (snd (figure_data f))) figs \<and>
                      w = concat (map (\<lambda>f. fst (figure_data f)) figs))
            else fs' = [] \<and> w = [])"
  using assms
  by (auto simp: figures_step_def append_figures split: option.splits if_splits iteration.splits)

lemma layout_step_Inr:
  assumes "layout_step options r (success_output f m c t fi (PList ls)) = Inr out"
  shows "\<exists>ls'. out = success_output f m c t fi (PList (ls @ ls')) \<and>
           (if truthy (dict_get options ''preserve_layout'' (PBool True))
            then (case layout r of
                    None \<Rightarrow> ls' = []
                  | Some x \<Rightarrow> \<exists>els les. x = Iteration els None \<and> collect (map layout_element els) = Inr les \<and>
                      ls' = map PDict les)
            else ls' = [])"
  using assms
  by (auto simp: layout_step_def and_then_Inr_iff append_layout dest!: for_each_Inr
      split: option.splits if_splits)

lemma flatten_not_exists: "\<not> exists p \<Longrightarrow> \<exists>e. flatten p options r = ([], Inl e)"
  by (simp add: flatten_def stat_def)

lemma flatten_no_document:
  "exists p \<Longrightarrow> \<not> is_document r \<Longrightarrow> flatten p options r = ([], Inr (initial_output p options))"
  by (simp add: flatten_def stat_def initial_output_def success_output_def)

lemma flatten_document:
  "exists p \<Longrightarrow> is_document r \<Longrightarrow>
   flatten p options r =
     (case and_then (content_step options r (initial_output p options)) (\<lambda>output.
           and_then (metadata_step r output) (\<lambda>output. tables_step options r output)) of
        Inl e \<Rightarrow> ([], Inl e)
      | Inr output \<Rightarrow>
          (case figures_step options r output of
             (warnings, Inl e) \<Rightarrow> (warnings, Inl e)
           | (warnings, Inr output) \<Rightarrow> (warnings, layout_step options r output)))"
  by (simp add: flatten_def stat_def initial_output_def success_output_def)

lemma flatten_Inr_exists: "flatten p options r = (w, Inr out) \<Longrightarrow> exists p"
  by (cases "exists p") (auto simp: flatten_def stat_def)

lemma flatten_document_Inr:
  assumes "is_document r" "flatten p options r = (w, Inr out)"
  shows "\<exists>o1 o2 o3 o4.
           content_step options r (initial_output p options) = Inr o1 \<and>
           metadata_step r o1 = Inr o2 \<and>
           tables_step options r o2 = Inr o3 \<and>
           figures_step options r o3 = (w, Inr o4) \<and>
           layout_step options r o4 = Inr out"
proof -
  have ex: "exists p" using assms(2) by (rule flatten_Inr_exists)
  show ?thesis
    using assms(2) unfolding flatten_document[OF ex assms(1)]
    by (auto simp: and_then_Inr_iff split: sum.splits prod.splits)
qed

lemma flatten_Inr_full:
  assumes "flatten p options r = (w, Inr out)"
  shows "\<exists>md c ts fs ls.
           out = success_output (dict_get options ''output_format'' (PStr ''json''))
                   (PDict md) c (PList ts) (PList fs) (PList ls) \<and>
           (if is_document r then
              (\<exists>fmt. dict_getitem options ''output_format'' = Inr fmt \<and>
                 (if fmt = PStr ''markdown'' then to_markdown r else to_text r) = Inr c) \<and>
              (case metadata r of
                 None \<Rightarrow>
                   md = [(''filename'', PStr (name p)), (''file_size'', PInt (st_size p)),
                         (''pages'', PInt 0)]
               | Some x \<Rightarrow> \<exists>mm. x = Inr mm \<and>
                   md = dict_update
                          [(''filename'', PStr (name p)), (''file_size'', PInt (st_size p)),
                           (''pages'', PInt 0)]
                          [(''title'', dict_get mm ''title'' (PStr [])),
                           (''author'', dict_get mm ''author'' (PStr [])),
                           (''pages'', dict_get mm ''page_count'' (PInt 0))]) \<and>
              (if truthy (dict_get options ''extract_tables'' (PBool True))
               then (case tables r of
                       None \<Rightarrow> ts = []
                     | Some x \<Rightarrow> \<exists>tbs tds. x = Iteration tbs None \<and>
                         collect (map table_data tbs) = Inr tds \<and> ts = map PDict tds)
               else ts = []) \<and>
              (if truthy (dict_get options ''extract_figures'' (PBool True))
               then (case figures r of
                       None \<Rightarrow> fs = [] \<and> w = []
                     | Some x \<Rightarrow> \<exists>figs. x = Iteration figs None \<and>
                         fs = map (\<lambda>f. PDict (snd (figure_data f))) figs \<and>
                         w = concat (map (\<lambda>f. fst (figure_data f)) figs))
               else fs = [] \<and> w = []) \<and>
              (if truthy (dict_get options ''preserve_layout'' (PBool True))
               then (case layout r of
                       None \<Rightarrow> ls = []
                     | Some x \<Rightarrow> \<exists>els les. x = Iteration els None \<and>
                         collect (map layout_element els) = Inr les \<and> ls = map PDict les)
               else ls = [])
            else
              md = [(''filename'', PStr (name p)), (''file_size'', PInt (st_size p)),
                    (''pages'', PInt 0)] \<and>
              c = PStr [] \<and> ts = [] \<and> fs = [] \<and> ls = [] \<and> w = [])"
proof (cases "is_document r")
  case False
  have "exists p" using assms by (rule flatten_Inr_exists)
  then show ?thesis
    using assms False by (simp add: flatten_no_document initial_output_def)
next
  case True
  from flatten_document_Inr[OF True assms] obtain o1 o2 o3 o4 where
    s1: "content_step options r (initial_output p options) = Inr o1" and
    s2: "metadata_step r o1 = Inr o2" and
    s3: "tables_step options r o2 = Inr o3" and
    s4: "figures_step options r o3 = (w, Inr o4)" and
    s5: "layout_step options r o4 = Inr out"
    by blast
  from content_step_Inr[OF s1[unfolded initial_output_def]] obtain fmt c where
    c: "dict_getitem options ''output_format'' = Inr fmt"
       "(if fmt = PStr ''markdown'' then to_markdown r else to_text r) = Inr c" and
    o1: "o1 = success_output (dict_get options ''output_format'' (PStr ''json''))
           (PDict [(''filename'', PStr (name p)), (''file_size'', PInt (st_size p)),
                   (''pages'', PInt 0)]) c (PList []) (PList []) (PList [])"
    by blast
  from metadata_step_Inr[OF s2[unfolded o1]] obtain md where
    o2: "o2 = success_output (dict_get options ''output_format'' (PStr ''json''))
           (PDict md) c (PList []) (PList []) (PList [])" and
    md: "case metadata r of
           None \<Rightarrow>
             md = [(''filename'', PStr (name p)), (''file_size'', PInt (st_size p)),
                   (''pages'', PInt 0)]
         | Some x \<Rightarrow> \<exists>mm. x = Inr mm \<and>
             md = dict_update
                    [(''filename'', PStr (name p)), (''file_size'', PInt (st_size p)),
                     (''pages'', PInt 0)]
                    [(''title'', dict_get mm ''title'' (PStr [])),
                     (''author'', dict_get mm ''author'' (PStr [])),
                     (''pages'', dict_get mm ''page_count'' (PInt 0))]"
    by blast
  from tables_step_Inr[OF s3[unfolded o2]] obtain ts where
    o3: "o3 = success_output (dict_get options ''output_format'' (PStr ''json''))
           (PDict md) c (PList ts) (PList []) (PList [])" and
    ts: "if truthy (dict_get options ''extract_tables'' (PBool True))
         then (case tables r of
                 None \<Rightarrow> ts = []
               | Some x \<Rightarrow> \<exists>tbs tds. x = Iteration tbs None \<and>
                   collect (map table_data tbs) = Inr tds \<and> ts = map PDict tds)
         else ts = []"
    by auto
  from figures_step_Inr[OF s4[unfolded o3]] obtain fs where
    o4: "o4 = success_output (dict_get options ''output_format'' (PStr ''json''))
           (PDict md) c (PList ts) (PList fs) (PList [])" and
    fs: "if truthy (dict_get options ''extract_figures'' (PBool True))
         then (case figures r of
                 None \<Rightarrow> fs = [] \<and> w = []
               | Some x \<Rightarrow> \<exists>figs. x = Iteration figs None \<and>
                   fs = map (\<lambda>f. PDict (snd (figure_data f))) figs \<and>
                   w = concat (map (\<lambda>f. fst (figure_data f)) figs))
         else fs = [] \<and> w = []"
    by auto
  from layout_step_Inr[OF s5[unfolded o4]] obtain ls where
    out: "out = success_output (dict_get options ''output_format'' (PStr ''json''))
           (PDict md) c (PList ts) (PList fs) (PList ls)" and
    ls: "if truthy (dict_get options ''preserve_layout'' (PBool True))
         then (case layout r of
                 None \<Rightarrow> ls = []
               | Some x \<Rightarrow> \<exists>els les. x = Iteration els None \<and>
                   collect (map layout_element els) = Inr les \<and> ls = map PDict les)
         else ls = []"
    by auto
  show ?thesis
    apply (rule exI[of _ md], rule exI[of _ c], rule exI[of _ ts], rule exI[of _ fs],
           rule exI[of _ ls])
    apply (simp only: True if_True)
    apply (intro conjI)
         apply (rule out)
        apply (rule exI[of _ fmt])
        apply (rule conjI[OF c])
       apply (rule md)
      apply (rule ts)
     apply (rule fs)
    apply (rule ls)
    done
qed

lemma flatten_Inr_shape:
  assumes "flatten p options r = (w, Inr out)"
  shows "\<exists>md c ts fs ls.
           out = success_output (dict_get options ''output_format'' (PStr ''json''))
                   (PDict md) c (PList ts) (PList fs) (PList ls)"
  using flatten_Inr_full[OF assms] by blast

lemma keys_success_output:
  "keys (success_output f m c t fi l) =
     [''success'', ''format'', ''metadata'', ''content'', ''tables'', ''figures'', ''layout'']"
  by (simp add: keys_def success_output_def)

lemma keys_failure: "keys (failure options e) = [''success'', ''error'', ''format'']"
  by (simp add: keys_def failure_def)

lemma success_of_success_output:
  "map_of (success_output f m c t fi l) ''success'' = Some (PBool True)"
  by (simp add: success_output_def)

lemma success_of_failure: "map_of (failure options e) ''success'' = Some (PBool False)"
  by (simp add: failure_def)

lemma cli_options_get:
  "dict_get (cli_options a) ''output_format'' dflt = PStr (format_str (output_format a))"
  "dict_get (cli_options a) ''preserve_layout'' dflt = PBool (preserve_layout a)"
  "dict_get (cli_options a) ''extract_tables'' dflt = PBool (extract_tables a)"
  "dict_get (cli_options a) ''extract_figures'' dflt = PBool (extract_figures a)"
  "dict_get (cli_options a) ''extract_equations'' dflt = PBool (extract_equations a)"
  by (simp_all add: cli_options_def dict_get_def)

lemma cli_options_getitem:
  "dict_getitem (cli_options a) ''output_format'' = Inr (PStr (format_str (output_format a)))"
  by (simp add: cli_options_def dict_getitem_def)

lemma lookup_success_output:
  "map_of (success_output f m c t fi l) ''format'' = Some f"
  "map_of (success_output f m c t fi l) ''metadata'' = Some m"
  "map_of (success_output f m c t fi l) ''content'' = Some c"
  "map_of (success_output f m c t fi l) ''tables'' = Some t"
  "map_of (success_output f m c t fi l) ''figures'' = Some fi"
  "map_of (success_output f m c t fi l) ''layout'' = Some l"
  by (simp_all add: success_output_def)

lemma map_of_dict_set:
  "map_of (dict_set d k v) k' = (if k' = k then Some v else map_of d k')"
  by (induction d k v rule: dict_set.induct) auto

lemma startswith_iff: "startswith s p \<longleftrightarrow> (\<exists>suf. s = p @ suf)"
  by (induction s p rule: startswith.induct) auto

lemma contains_iff: "contains sub s \<longleftrightarrow> (\<exists>pre suf. s = pre @ sub @ suf)"
proof (induction s)
  case Nil
  then show ?case by auto
next
  case (Cons c cs)
  show ?case
  proof
    assume "contains sub (c # cs)"
    then consider "startswith (c # cs) sub" | "contains sub cs" by auto
    then show "\<exists>pre suf. c # cs = pre @ sub @ suf"
    proof cases
      case 1
      then obtain suf where "c # cs = sub @ suf" by (auto simp: startswith_iff)
      then have "c # cs = [] @ sub @ suf" by simp
      then show ?thesis by blast
    next
      case 2
      with Cons.IH obtain pre suf where "cs = pre @ sub @ suf" by blast
      then have "c # cs = (c # pre) @ sub @ suf" by simp
      then show ?thesis by blast
    qed
  next
    assume "\<exists>pre suf. c # cs = pre @ sub @ suf"
    then obtain pre suf where eq: "c # cs = pre @ sub @ suf" by blast
    show "contains sub (c # cs)"
    proof (cases pre)
      case Nil
      with eq have "startswith (c # cs) sub" by (auto simp: startswith_iff)
      then show ?thesis by simp
    next
      case (Cons a pre')
      with eq have "cs = pre' @ sub @ suf" by simp
      with Cons.IH have "contains sub cs" by blast
      then show ?thesis by simp
    qed
  qed
qed

lemma classify_chain:
  "classify t =
     (let element_type = lower t in
      if contains ''header'' element_type \<or> contains ''heading'' element_type then ''header''
      else if contains ''table'' element_type then ''table''
      else if contains ''figure'' element_type \<or> contains ''image'' element_type then ''figure''
      else if contains ''list'' element_type then ''list''
      else if contains ''code'' element_type then ''code''
      else if contains ''footer'' element_type then ''footer''
      else if contains ''caption'' element_type then ''caption''
      else ''paragraph'')"
  by (simp add: classify_def type_precedence_def Let_def)

lemma determine_type_classify:
  "determine_type el le =
     (case etype el of
        None \<Rightarrow> Inr le
      | Some t \<Rightarrow>
          if classify t = ''header'' then
            (case level el of
               None \<Rightarrow> Inr (dict_set le ''type'' (PStr ''header''))
             | Some l \<Rightarrow>
                 and_then l (\<lambda>n. Inr (dict_set (dict_set le ''type'' (PStr ''header''))
                                         ''level'' (PInt n))))
          else if classify t = ''paragraph'' then Inr le
          else Inr (dict_set le ''type'' (PStr (classify t))))"
  by (simp add: determine_type_def classify_chain Let_def split: option.split)

lemma determine_type_Inr:
  assumes "determine_type el le = Inr le'"
    and "map_of le ''type'' = Some (PStr ''paragraph'')" and "map_of le ''level'' = Some PNone"
  shows "map_of le' ''type'' =
           Some (PStr (case etype el of None \<Rightarrow> ''paragraph'' | Some t \<Rightarrow> classify t))"
    and "map_of le' ''level'' =
           Some (case etype el of
                   None \<Rightarrow> PNone
                 | Some t \<Rightarrow>
                     if classify t = ''header''
                     then (case level el of Some (Inr n) \<Rightarrow> PInt n | _ \<Rightarrow> PNone)
                     else PNone)"
  using assms
  by (auto simp: determine_type_classify map_of_dict_set and_then_Inr_iff
      split: option.splits if_splits sum.splits)

lemma map_of_set_nested:
  "k' \<noteq> k \<Longrightarrow> map_of (set_nested d k k2 v) k' = map_of d k'"
  by (simp add: set_nested_def map_of_dict_set)

lemma extract_content_lookup:
  "k \<noteq> ''content'' \<Longrightarrow> map_of (extract_content el le) k = map_of le k"
  by (simp add: extract_content_def map_of_dict_set split: option.splits)

lemma extract_page_lookup:
  "k \<noteq> ''metadata'' \<Longrightarrow> map_of (extract_page el le) k = map_of le k"
  by (simp add: extract_page_def map_of_set_nested split: option.splits)

lemma extract_bbox_lookup:
  "extract_bbox el le = Inr le' \<Longrightarrow> k \<noteq> ''metadata'' \<Longrightarrow> map_of le' k = map_of le k"
  by (auto simp: extract_bbox_def and_then_Inr_iff map_of_set_nested split: option.splits)

lemma layout_element_Inr:
  assumes "layout_element el = Inr le"
  shows "map_of le ''type'' =
           Some (PStr (case etype el of None \<Rightarrow> ''paragraph'' | Some t \<Rightarrow> classify t)) \<and>
         map_of le ''level'' =
           Some (case etype el of
                   None \<Rightarrow> PNone
                 | Some t \<Rightarrow>
                     if classify t = ''header''
                     then (case level el of Some (Inr n) \<Rightarrow> PInt n | _ \<Rightarrow> PNone)
                     else PNone)"
proof -
  let ?le0 = "[(''type'', PStr ''paragraph''), (''content'', PStr []), (''level'', PNone),
               (''metadata'', PDict [])]"
  from assms obtain le1 le2 where
    a: "determine_type el ?le0 = Inr le1" and
    b: "extract_bbox el (extract_content el le1) = Inr le2" and
    c: "le = extract_page el le2"
    by (auto simp: layout_element_def and_then_Inr_iff)
  have k: "map_of le k = map_of le1 k" if "k \<noteq> ''metadata''" "k \<noteq> ''content''" for k
    using that by (simp add: c extract_page_lookup extract_bbox_lookup[OF b] extract_content_lookup)
  have t: "map_of le ''type'' = map_of le1 ''type''" and l: "map_of le ''level'' = map_of le1 ''level''"
    by (simp_all add: k)
  have "map_of ?le0 ''type'' = Some (PStr ''paragraph'')" "map_of ?le0 ''level'' = Some PNone"
    by simp_all
  from determine_type_Inr[OF a this] show ?thesis
    by (simp add: t l)
qed

lemma collect_Inr: "collect rs = Inr vs \<Longrightarrow> rs = map Inr vs"
  by (induction rs arbitrary: vs) (auto split: sum.splits)

lemma collect_map_Inr:
  assumes "collect (map f xs) = Inr ys" and "\<And>x y. f x = Inr y \<Longrightarrow> g y = h x"
  shows "map g ys = map h xs"
  using assms(1)
proof (induction xs arbitrary: ys)
  case Nil
  then show ?case by simp
next
  case (Cons x xs)
  then show ?case
    by (auto split: sum.splits simp: assms(2))
qed

lemma flatten_layout:
  assumes "flatten p options r = (w, Inr out)" "is_document r"
    "truthy (dict_get options ''preserve_layout'' (PBool True))" "layout r = Some (Iteration els None)"
  shows "\<exists>les. collect (map layout_element els) = Inr les \<and>
           map_of out ''layout'' = Some (PList (map PDict les))"
proof -
  from flatten_Inr_full[OF assms(1)] obtain md c ts fs ls where
    out: "out = success_output (dict_get options ''output_format'' (PStr ''json''))
                  (PDict md) c (PList ts) (PList fs) (PList ls)" and
    ls: "case layout r of
           None \<Rightarrow> ls = []
         | Some x \<Rightarrow> \<exists>els les. x = Iteration els None \<and>
             collect (map layout_element els) = Inr les \<and> ls = map PDict les"
    using assms(2,3) by auto
  from ls assms(4) show ?thesis
    by (auto simp: out lookup_success_output)
qed

lemma steps_figures_update:
  "content_step options (r\<lparr>figures := F\<rparr>) out = content_step options r out"
  "metadata_step (r\<lparr>figures := F\<rparr>) out = metadata_step r out"
  "tables_step options (r\<lparr>figures := F\<rparr>) out = tables_step options r out"
  "layout_step options (r\<lparr>figures := F\<rparr>) out = layout_step options r out"
  by (simp_all add: content_step_def metadata_step_def tables_step_def layout_step_def
      cong: if_cong)

lemma layout_step_success_indep:
  "layout_step options r out = Inr x \<Longrightarrow> \<exists>y. layout_step options r out' = Inr y"
  by (auto simp: layout_step_def and_then_Inr_iff split: if_splits option.splits)

lemma figure_data_eq:
  "figure_data f =
     (case image f of
        Some (Inl e) \<Rightarrow> [(WARNING, ''Could not extract figure image: '' @ str_exc e)]
      | _ \<Rightarrow> [],
      [(''caption'', PStr (case fig_caption f of None \<Rightarrow> [] | Some c \<Rightarrow> c)),
       (''type'', PStr ''figure''),
       (''base64'', case image f of Some (Inr (Some b)) \<Rightarrow> PStr b | _ \<Rightarrow> PNone)])"
  by (simp add: figure_data_def split: option.splits sum.splits)

lemma flatten_figures_success:
  assumes "is_document r" "truthy (dict_get options ''extract_figures'' (PBool True))"
    "figures r = Some (Iteration fs None)"
    "flatten p options (r\<lparr>figures := F\<rparr>) = (w0, Inr out0)"
  shows "\<exists>w out. flatten p options r = (w, Inr out)"
proof -
  have ex: "exists p" using assms(4) by (rule flatten_Inr_exists)
  have d': "is_document (r\<lparr>figures := F\<rparr>)" using assms(1) by simp
  from flatten_document_Inr[OF d' assms(4)] obtain o1 o2 o3 o4 where
    s1: "content_step options r (initial_output p options) = Inr o1" and
    s2: "metadata_step r o1 = Inr o2" and
    s3: "tables_step options r o2 = Inr o3" and
    s5: "layout_step options r o4 = Inr out0"
    by (auto simp: steps_figures_update)
  let ?o4 = "append_all o3 ''figures'' (map (\<lambda>f. PDict (snd (figure_data f))) fs)"
  have s4: "figures_step options r o3 = (concat (map (\<lambda>f. fst (figure_data f)) fs), Inr ?o4)"
    using assms(2,3) by (simp add: figures_step_def)
  from layout_step_success_indep[OF s5] obtain y where y: "layout_step options r ?o4 = Inr y"
    by blast
  show ?thesis
    by (simp add: flatten_document[OF ex assms(1)] s1 s2 s3 s4 y and_then_def)
qed

lemma dict_get_dict_set:
  "k' \<noteq> k \<Longrightarrow> dict_get (dict_set d k v) k' dflt = dict_get d k' dflt"
  by (simp add: dict_get_def map_of_dict_set)

lemma dict_getitem_dict_set:
  "k' \<noteq> k \<Longrightarrow> dict_getitem (dict_set d k v) k' = dict_getitem d k'"
  by (simp add: dict_getitem_def map_of_dict_set)

lemma steps_extract_equations:
  "content_step (dict_set options ''extract_equations'' v) r out = content_step options r out"
  "tables_step (dict_set options ''extract_equations'' v) r out = tables_step options r out"
  "figures_step (dict_set options ''extract_equations'' v) r out = figures_step options r out"
  "layout_step (dict_set options ''extract_equations'' v) r out = layout_step options r out"
  by (simp_all add: content_step_def tables_step_def figures_step_def layout_step_def
      dict_get_dict_set dict_getitem_dict_set)

lemma flatten_extract_equations:
  "flatten p (dict_set options ''extract_equations'' v) r = flatten p options r"
  by (simp add: flatten_def steps_extract_equations dict_get_dict_set Let_def
      cong: sum.case_cong if_cong prod.case_cong)

lemma cli_options_extract_equations:
  "cli_options (a\<lparr>extract_equations := b\<rparr>) =
     dict_set (cli_options a) ''extract_equations'' (PBool b)"
  by (simp add: cli_options_def)

lemma failure_extract_equations:
  "failure (dict_set options ''extract_equations'' v) e = failure options e"
  by (simp add: failure_def dict_get_dict_set)

subsection \<open>A run of \<open>main\<close>\<close>

lemma process_document_fresh:
  "process_document construct \<lparr>converter = None\<rparr> p options =
     (case construct (pipeline_options_for options) of
        Inl e \<Rightarrow> Inl e
      | Inr convert \<Rightarrow>
          (case convert (path_str p) of
             Inl e \<Rightarrow>
               Inr (\<lparr>converter = Some convert\<rparr>,
                    [(INFO, ''Processing document: '' @ path_str p),
                     (ERROR, ''Error processing document: '' @ str_exc e)],
                    failure options e)
           | Inr r \<Rightarrow>
               (case flatten p options r of
                  (w, Inl e) \<Rightarrow>
                    Inr (\<lparr>converter = Some convert\<rparr>,
                         (INFO, ''Processing document: '' @ path_str p) # w @
                           [(ERROR, ''Error processing document: '' @ str_exc e)],
                         failure options e)
                | (w, Inr output) \<Rightarrow>
                    Inr (\<lparr>converter = Some convert\<rparr>,
                         (INFO, ''Processing document: '' @ path_str p) # w, output))))"
  by (simp add: process_document_def initialize_converter_def and_then_def Let_def
      split: sum.splits prod.splits)

lemma process_document_conversion:
  "map_sum id snd (process_document construct \<lparr>converter = None\<rparr> (input_file a) (cli_options a)) =
     (case conversion construct a of
        Inl e \<Rightarrow> Inl e
      | Inr (Inl e) \<Rightarrow>
          Inr ([(INFO, ''Processing document: '' @ path_str (input_file a)),
                (ERROR, ''Error processing document: '' @ str_exc e)],
               failure (cli_options a) e)
      | Inr (Inr r) \<Rightarrow>
          (case flatten (input_file a) (cli_options a) r of
             (w, Inl e) \<Rightarrow>
               Inr ((INFO, ''Processing document: '' @ path_str (input_file a)) # w @
                      [(ERROR, ''Error processing document: '' @ str_exc e)],
                    failure (cli_options a) e)
           | (w, Inr output) \<Rightarrow>
               Inr ((INFO, ''Processing document: '' @ path_str (input_file a)) # w, output)))"
  by (simp add: process_document_fresh conversion_def split: sum.splits prod.splits)

lemma processed_by_process:
  "processed construct a =
     (case map_sum id snd (process_document construct \<lparr>converter = None\<rparr> (input_file a)
                             (cli_options a)) of
        Inl e \<Rightarrow> None
      | Inr (plogs, res) \<Rightarrow> Some res)"
  by (simp add: processed_def split: sum.splits prod.splits)

lemma processed_construction:
  "conversion construct a = Inl e \<Longrightarrow> processed construct a = None"
  by (simp add: processed_by_process process_document_conversion)

lemma processed_raises:
  "conversion construct a = Inr (Inl e) \<Longrightarrow>
   processed construct a = Some (failure (cli_options a) e)"
  by (simp add: processed_by_process process_document_conversion)

lemma processed_flatten:
  "conversion construct a = Inr (Inr r) \<Longrightarrow>
   processed construct a =
     Some (case flatten (input_file a) (cli_options a) r of
             (w, Inl e) \<Rightarrow> failure (cli_options a) e
           | (w, Inr output) \<Rightarrow> output)"
  by (simp add: processed_by_process process_document_conversion split: prod.splits sum.splits)

lemma processed_cases:
  assumes "processed construct a = Some d"
  shows "(\<exists>e. d = failure (cli_options a) e \<and>
            (conversion construct a = Inr (Inl e) \<or>
             (\<exists>r w. conversion construct a = Inr (Inr r) \<and>
                    flatten (input_file a) (cli_options a) r = (w, Inl e)))) \<or>
         (\<exists>r w. conversion construct a = Inr (Inr r) \<and>
                flatten (input_file a) (cli_options a) r = (w, Inr d))"
proof (cases "conversion construct a")
  case (Inl e)
  with assms show ?thesis by (simp add: processed_construction)
next
  case (Inr res)
  show ?thesis
  proof (cases res)
    case (Inl e)
    with Inr assms show ?thesis by (auto simp: processed_raises)
  next
    case r: (Inr r)
    obtain w fr where fl: "flatten (input_file a) (cli_options a) r = (w, fr)"
      by (cases "flatten (input_file a) (cli_options a) r")
    show ?thesis
      using Inr r fl assms by (cases fr) (auto simp: processed_flatten)
  qed
qed



lemma main_by_process:
  "main os construct (Parsed a) =
     (if \<not> exists (input_file a) then
        \<lparr>exit_code = 1, emitted = None,
         logs = [(ERROR, ''Input file not found: '' @ path_str (input_file a))],
         result = None, crashed = None\<rparr>
      else
        (case map_sum id snd (process_document construct \<lparr>converter = None\<rparr> (input_file a)
                                (cli_options a)) of
           Inl e \<Rightarrow>
             \<lparr>exit_code = 1, emitted = None, logs = [], result = None,
              crashed = Some (Construction e)\<rparr>
         | Inr (plogs, res) \<Rightarrow>
             \<lparr>exit_code =
                (if snd (snd (write_output os a res)) = None \<and>
                    truthy (dict_get res ''success'' (PBool False)) then 0 else 1),
              emitted = fst (write_output os a res),
              logs = plogs @ fst (snd (write_output os a res)),
              result = Some res,
              crashed = snd (snd (write_output os a res))\<rparr>))"
  by (simp add: main_def Let_def split: sum.splits prod.splits option.splits)

lemma main_missing:
  "\<not> exists (input_file a) \<Longrightarrow>
   main os construct (Parsed a) =
     \<lparr>exit_code = 1, emitted = None,
      logs = [(ERROR, ''Input file not found: '' @ path_str (input_file a))],
      result = None, crashed = None\<rparr>"
  by (simp add: main_by_process)

lemma main_result:
  "exists (input_file a) \<Longrightarrow> result (main os construct (Parsed a)) = processed construct a"
  by (simp add: main_by_process processed_by_process split: sum.splits prod.splits)

lemma main_processed:
  assumes "exists (input_file a)" "processed construct a = Some res"
  shows "exit_code (main os construct (Parsed a)) =
           (if crashed (main os construct (Parsed a)) = None \<and>
               truthy (dict_get res ''success'' (PBool False)) then 0 else 1)"
    and "emitted (main os construct (Parsed a)) = fst (write_output os a res)"
    and "crashed (main os construct (Parsed a)) = snd (snd (write_output os a res))"
  using assms
  by (auto simp: main_by_process processed_by_process split: sum.splits prod.splits)

lemma main_result_Some:
  assumes "result (main os construct cl) = Some d"
  shows "\<exists>a. cl = Parsed a \<and> exists (input_file a) \<and> processed construct a = Some d"
proof (cases cl)
  case Usage_error
  with assms show ?thesis by (simp add: main_def)
next
  case Help
  with assms show ?thesis by (simp add: main_def)
next
  case (Parsed a)
  show ?thesis
  proof (cases "exists (input_file a)")
    case True
    with assms Parsed show ?thesis by (simp add: main_result)
  next
    case False
    with assms Parsed show ?thesis by (simp add: main_missing)
  qed
qed

lemma write_output_json:
  "emitted_json (fst (write_output os a res)) = Some d \<Longrightarrow>
   d = res \<and> output_format a = Json \<and> snd (snd (write_output os a res)) = None"
  by (auto simp: write_output_def write_file_def print_output_def
      split: option.splits if_splits pyval.splits)


lemma main_emitted_json:
  assumes "emitted_json (emitted (main os construct cl)) = Some d"
  shows "result (main os construct cl) = Some d"
proof (cases cl)
  case Usage_error
  with assms show ?thesis by (simp add: main_def)
next
  case Help
  with assms show ?thesis by (simp add: main_def)
next
  case (Parsed a)
  show ?thesis
  proof (cases "exists (input_file a)")
    case False
    with assms Parsed show ?thesis by (simp add: main_missing)
  next
    case True
    show ?thesis
    proof (cases "processed construct a")
      case None
      with assms Parsed True show ?thesis
        by (simp add: main_by_process processed_by_process split: sum.splits prod.splits)
    next
      case (Some res)
      from assms have "emitted_json (fst (write_output os a res)) = Some d"
        by (simp add: Parsed main_processed(2)[OF True Some])
      then have "d = res" by (simp add: write_output_json)
      then show ?thesis by (simp add: Parsed main_result[OF True] Some)
    qed
  qed
qed

lemma main_success_flatten:
  assumes "result (main os construct (Parsed a)) = Some d"
    "map_of d ''success'' = Some (PBool True)"
  shows "exists (input_file a) \<and> processed construct a = Some d \<and>
         (\<exists>r w. conversion construct a = Inr (Inr r) \<and>
                flatten (input_file a) (cli_options a) r = (w, Inr d))"
proof -
  from main_result_Some[OF assms(1)] have ex: "exists (input_file a)" and
    d: "processed construct a = Some d"
    by simp_all
  from processed_cases[OF d] assms(2) show ?thesis
    by (auto simp: ex d success_of_failure)
qed

lemma process_document_extract_equations:
  assumes "conversion construct (a\<lparr>extract_equations := b\<rparr>) = conversion construct a"
  shows "map_sum id snd (process_document construct \<lparr>converter = None\<rparr> (input_file a)
                           (cli_options (a\<lparr>extract_equations := b\<rparr>))) =
         map_sum id snd (process_document construct \<lparr>converter = None\<rparr> (input_file a)
                           (cli_options a))"
proof -
  have i: "input_file (a\<lparr>extract_equations := b\<rparr>) = input_file a"
    by simp
  note l = process_document_conversion[of construct "a\<lparr>extract_equations := b\<rparr>",
      unfolded i assms cli_options_extract_equations]
  note r = process_document_conversion[of construct a]
  show ?thesis
  proof (cases "conversion construct a")
    case (Inl e)
    then show ?thesis by (simp add: l r cli_options_extract_equations)
  next
    case (Inr res)
    then show ?thesis
      by (cases res)
        (simp_all add: l r cli_options_extract_equations flatten_extract_equations
          failure_extract_equations)
  qed
qed

lemma write_output_extract_equations:
  "write_output os (a\<lparr>extract_equations := b\<rparr>) res = write_output os a res"
proof -
  have "print_output os (a\<lparr>extract_equations := b\<rparr>) res = print_output os a res"
    by (simp add: print_output_def)
  moreover have "write_file os (a\<lparr>extract_equations := b\<rparr>) f res = write_file os a f res"
    for f
    by (simp add: write_file_def)
  ultimately show ?thesis
    by (simp add: write_output_def split: option.splits)
qed


subsection \<open>Evaluating the examples\<close>

lemmas eval_defs =
  ex_path_def ex_element_def ex_figures_def ex_layout_def ex_document_def ex_args_def
  returns_def raises_def unbuildable_def ex_os_def ex_os_no_dir_def
  processed_def process_document_def main_def cli_options_def pipeline_options_for_def
  initialize_converter_def PipelineOptions_def conversion_def flatten_def stat_def failure_def
  content_step_def metadata_step_def tables_step_def figures_step_def layout_step_def
  table_data_def figure_data_def layout_element_def determine_type_def extract_content_def
  extract_bbox_def extract_page_def write_output_def write_file_def print_output_def
  and_then_def for_each_def dict_getitem_def dict_get_def append_all_def set_nested_def
  update_nested_def lower_def lower_char_def keys_def Let_def

section \<open>The claims\<close>

text \<open>
  C1. Whatever the flags and whatever the converter does, the dictionary a run produces,
  and so the JSON object it writes, has exactly the keys success, format, metadata,
  content, tables, figures, layout with success true, or exactly the keys success, error,
  format with success false: no success carries an error and no failure carries any of
  metadata, content, tables, figures, layout.
\<close>

theorem C1_output_keys:
  assumes "result (main os construct cl) = Some d \<or>
           emitted_json (emitted (main os construct cl)) = Some d"
  shows "(map_of d ''success'' = Some (PBool True) \<and>
          keys d = [''success'', ''format'', ''metadata'', ''content'', ''tables'',
                    ''figures'', ''layout'']) \<or>
         (map_of d ''success'' = Some (PBool False) \<and>
          keys d = [''success'', ''error'', ''format''])"
proof -
  from assms have "result (main os construct cl) = Some d"
    by (auto dest: main_emitted_json)
  from main_result_Some[OF this] obtain a where d: "processed construct a = Some d"
    by blast
  from processed_cases[OF d] show ?thesis
  proof
    assume "\<exists>e. d = failure (cli_options a) e \<and>
        (conversion construct a = Inr (Inl e) \<or>
         (\<exists>r w. conversion construct a = Inr (Inr r) \<and>
                flatten (input_file a) (cli_options a) r = (w, Inl e)))"
    then show ?thesis
      by (auto simp: keys_failure success_of_failure)
  next
    assume "\<exists>r w. conversion construct a = Inr (Inr r) \<and>
          flatten (input_file a) (cli_options a) r = (w, Inr d)"
    then obtain r w where "flatten (input_file a) (cli_options a) r = (w, Inr d)"
      by blast
    from flatten_Inr_shape[OF this] show ?thesis
      by (auto simp: keys_success_output success_of_success_output)
  qed
qed

theorem C1_output_keys_witness:
  "(\<exists>d. emitted_json (emitted (main ex_os (returns ex_document) (Parsed ex_args))) = Some d \<and>
        map_of d ''success'' = Some (PBool True) \<and>
        keys d = [''success'', ''format'', ''metadata'', ''content'', ''tables'', ''figures'',
                  ''layout'']) \<and>
   (\<exists>d. emitted_json (emitted (main ex_os (raises (PyException ''bad file'')) (Parsed ex_args))) =
          Some d \<and>
        map_of d ''success'' = Some (PBool False) \<and>
        keys d = [''success'', ''error'', ''format''])"
proof -
  obtain d1 where e1:
    "emitted_json (emitted (main ex_os (returns ex_document) (Parsed ex_args))) = Some d1"
    by (simp add: eval_defs)
  obtain d2 where e2:
    "emitted_json (emitted (main ex_os (raises (PyException ''bad file'')) (Parsed ex_args))) =
       Some d2"
    by (simp add: eval_defs)
  have s1: "map_of d1 ''success'' = Some (PBool True)"
    using e1 by (auto simp: eval_defs)
  have s2: "map_of d2 ''success'' = Some (PBool False)"
    using e2 by (auto simp: eval_defs)
  have k1: "keys d1 = [''success'', ''format'', ''metadata'', ''content'', ''tables'',
                       ''figures'', ''layout'']"
    using C1_output_keys[OF disjI2[OF e1]] s1 by simp
  have k2: "keys d2 = [''success'', ''error'', ''format'']"
    using C1_output_keys[OF disjI2[OF e2]] s2 by simp
  show ?thesis
    using e1 s1 k1 e2 s2 k2 by blast
qed

text \<open>
  C2. In a successful run started from the command line, a flag that is not given leaves
  its list empty: without \<^verbatim>\<open>--extract-tables\<close> the tables, without
  \<^verbatim>\<open>--extract-figures\<close> the figures and without \<^verbatim>\<open>--preserve-layout\<close> the layout
  are the empty list, whatever the result object of the converter carries.
\<close>

theorem C2_flag_off_empty:
  assumes "result (main os construct (Parsed a)) = Some d"
    "map_of d ''success'' = Some (PBool True)"
  shows "(\<not> extract_tables a \<longrightarrow> map_of d ''tables'' = Some (PList [])) \<and>
         (\<not> extract_figures a \<longrightarrow> map_of d ''figures'' = Some (PList [])) \<and>
         (\<not> preserve_layout a \<longrightarrow> map_of d ''layout'' = Some (PList []))"
proof -
  from main_success_flatten[OF assms] obtain r w where
    fl: "flatten (input_file a) (cli_options a) r = (w, Inr d)"
    by blast
  from flatten_Inr_full[OF fl] obtain md c ts fs ls where
    d: "d = success_output (dict_get (cli_options a) ''output_format'' (PStr ''json''))
              (PDict md) c (PList ts) (PList fs) (PList ls)" and
    t: "\<not> truthy (dict_get (cli_options a) ''extract_tables'' (PBool True)) \<Longrightarrow> ts = []" and
    f: "\<not> truthy (dict_get (cli_options a) ''extract_figures'' (PBool True)) \<Longrightarrow> fs = []" and
    l: "\<not> truthy (dict_get (cli_options a) ''preserve_layout'' (PBool True)) \<Longrightarrow> ls = []"
    by (cases "is_document r") auto
  show ?thesis
    using t f l by (simp add: d cli_options_get lookup_success_output)
qed

theorem C2_flag_off_empty_witness:
  "\<exists>d. result (main ex_os (returns ex_document)
          (Parsed (ex_args\<lparr>extract_tables := False, extract_figures := False,
                          preserve_layout := False\<rparr>))) = Some d \<and>
       map_of d ''success'' = Some (PBool True) \<and>
       map_of d ''tables'' = Some (PList []) \<and>
       map_of d ''figures'' = Some (PList []) \<and>
       map_of d ''layout'' = Some (PList []) \<and>
       tables ex_document \<noteq> Some (Iteration [] None) \<and>
       figures ex_document \<noteq> Some (Iteration [] None) \<and>
       layout ex_document \<noteq> Some (Iteration [] None)"
proof -
  let ?a = "ex_args\<lparr>extract_tables := False, extract_figures := False, preserve_layout := False\<rparr>"
  obtain d where r: "result (main ex_os (returns ex_document) (Parsed ?a)) = Some d"
    by (simp add: eval_defs)
  have s: "map_of d ''success'' = Some (PBool True)"
    using r by (auto simp: eval_defs)
  have f: "\<not> extract_tables ?a" "\<not> extract_figures ?a" "\<not> preserve_layout ?a"
    by (simp_all add: ex_args_def)
  have n: "tables ex_document \<noteq> Some (Iteration [] None)"
    "figures ex_document \<noteq> Some (Iteration [] None)"
    "layout ex_document \<noteq> Some (Iteration [] None)"
    by (simp_all add: ex_document_def ex_figures_def ex_layout_def)
  have "map_of d ''tables'' = Some (PList [])" "map_of d ''figures'' = Some (PList [])"
    "map_of d ''layout'' = Some (PList [])"
    using C2_flag_off_empty[OF r s] f by simp_all
  with r s n show ?thesis by blast
qed

text \<open>
  C3. Layout classification is an order-preserving map over the layout elements of the
  result: the output has one element per input element, in the same order, and its type
  is the tag of the first entry of the precedence list (header or heading, table, figure
  or image, list, code, footer, caption) one of whose keywords occurs in the lower-cased
  type string, paragraph when there is none. Types that differ only in case classify
  alike. The types Heading-1, Table, Image, ListItem, CodeBlock, Footer, Caption, Paragraph
  give header, table, figure, list, code, footer, caption, paragraph. The level is an
  integer only for a header-classified element that has one, and None otherwise.
\<close>

theorem C3_layout_classification:
  assumes "flatten p options r = (w, Inr out)" "is_document r"
    "truthy (dict_get options ''preserve_layout'' (PBool True))" "layout r = Some (Iteration els None)"
  shows "(\<exists>les. map_of out ''layout'' = Some (PList (map PDict les)) \<and>
            map (\<lambda>le. map_of le ''type'') les =
              map (\<lambda>el. Some (PStr (case etype el of
                                      None \<Rightarrow> ''paragraph''
                                    | Some t \<Rightarrow> classify t))) els \<and>
            map (\<lambda>le. map_of le ''level'') les =
              map (\<lambda>el. Some (case etype el of
                                None \<Rightarrow> PNone
                              | Some t \<Rightarrow>
                                  if classify t = ''header''
                                  then (case level el of
                                          Some (Inr n) \<Rightarrow> PInt n
                                        | _ \<Rightarrow> PNone)
                                  else PNone)) els) \<and>
         map classify [''Heading-1'', ''Table'', ''Image'', ''ListItem'', ''CodeBlock'',
                       ''Footer'', ''Caption'', ''Paragraph''] =
           [''header'', ''table'', ''figure'', ''list'', ''code'', ''footer'', ''caption'',
            ''paragraph''] \<and>
         (lower t = lower t' \<longrightarrow> classify t = classify t')"
proof -
  from flatten_layout[OF assms] obtain les where
    c: "collect (map layout_element els) = Inr les" and
    l: "map_of out ''layout'' = Some (PList (map PDict les))"
    by blast
  have ty: "map (\<lambda>le. map_of le ''type'') les =
              map (\<lambda>el. Some (PStr (case etype el of
                                      None \<Rightarrow> ''paragraph''
                                    | Some t \<Rightarrow> classify t))) els"
    by (rule collect_map_Inr[OF c]) (simp add: layout_element_Inr)
  have lv: "map (\<lambda>le. map_of le ''level'') les =
              map (\<lambda>el. Some (case etype el of
                                None \<Rightarrow> PNone
                              | Some t \<Rightarrow>
                                  if classify t = ''header''
                                  then (case level el of
                                          Some (Inr n) \<Rightarrow> PInt n
                                        | _ \<Rightarrow> PNone)
                                  else PNone)) els"
    by (rule collect_map_Inr[OF c]) (simp add: layout_element_Inr)
  have ex: "map classify [''Heading-1'', ''Table'', ''Image'', ''ListItem'', ''CodeBlock'',
                          ''Footer'', ''Caption'', ''Paragraph''] =
              [''header'', ''table'', ''figure'', ''list'', ''code'', ''footer'', ''caption'',
               ''paragraph'']"
    by (simp add: classify_def type_precedence_def lower_def lower_char_def)
  have ci: "lower t = lower t' \<longrightarrow> classify t = classify t'"
    by (simp add: classify_def)
  from l ty lv ex ci show ?thesis by blast
qed

theorem C3_layout_classification_witness:
  "is_document ex_document \<and>
   truthy (dict_get (cli_options ex_args) ''preserve_layout'' (PBool True)) \<and>
   layout ex_document = Some (Iteration ex_layout None) \<and>
   (\<exists>out les.
      flatten ex_path (cli_options ex_args) ex_document =
        ([(WARNING, ''Could not extract figure image: cannot write mode P as PNG'')], Inr out) \<and>
      map_of out ''layout'' = Some (PList (map PDict les)) \<and>
      map (\<lambda>le. map_of le ''type'') les =
        [Some (PStr ''header''), Some (PStr ''table''), Some (PStr ''figure''),
         Some (PStr ''list''), Some (PStr ''code''), Some (PStr ''footer''),
         Some (PStr ''caption''), Some (PStr ''paragraph'')] \<and>
      map (\<lambda>le. map_of le ''level'') les =
        [Some (PInt 1), Some PNone, Some PNone, Some PNone, Some PNone, Some PNone,
         Some PNone, Some PNone])"
proof -
  obtain out where h1: "flatten ex_path (cli_options ex_args) ex_document =
     ([(WARNING, ''Could not extract figure image: cannot write mode P as PNG'')], Inr out)"
    by (simp add: eval_defs)
  have h2: "is_document ex_document"
    by (simp add: ex_document_def)
  have h3: "truthy (dict_get (cli_options ex_args) ''preserve_layout'' (PBool True))"
    by (simp add: cli_options_get ex_args_def)
  have h4: "layout ex_document = Some (Iteration ex_layout None)"
    by (simp add: ex_document_def)
  have c: "map classify [''Heading-1'', ''Table'', ''Image'', ''ListItem'', ''CodeBlock'',
                         ''Footer'', ''Caption'', ''Paragraph''] =
             [''header'', ''table'', ''figure'', ''list'', ''code'', ''footer'', ''caption'',
              ''paragraph'']"
    by (simp add: classify_def type_precedence_def lower_def lower_char_def)
  from C3_layout_classification[OF h1 h2 h3 h4] obtain les where
    "map_of out ''layout'' = Some (PList (map PDict les))"
    "map (\<lambda>le. map_of le ''type'') les =
       map (\<lambda>el. Some (PStr (case etype el of None \<Rightarrow> ''paragraph''
                                             | Some t \<Rightarrow> classify t))) ex_layout"
    "map (\<lambda>le. map_of le ''level'') les =
       map (\<lambda>el. Some (case etype el of
                         None \<Rightarrow> PNone
                       | Some t \<Rightarrow>
                           if classify t = ''header''
                           then (case level el of Some (Inr n) \<Rightarrow> PInt n | _ \<Rightarrow> PNone)
                           else PNone)) ex_layout"
    by blast
  with c have fin: "map_of out ''layout'' = Some (PList (map PDict les)) \<and>
      map (\<lambda>le. map_of le ''type'') les =
        [Some (PStr ''header''), Some (PStr ''table''), Some (PStr ''figure''),
         Some (PStr ''list''), Some (PStr ''code''), Some (PStr ''footer''),
         Some (PStr ''caption''), Some (PStr ''paragraph'')] \<and>
      map (\<lambda>le. map_of le ''level'') les =
        [Some (PInt 1), Some PNone, Some PNone, Some PNone, Some PNone, Some PNone,
         Some PNone, Some PNone]"
    by (simp add: ex_layout_def ex_element_def)
  show ?thesis
    apply (intro conjI h2 h3 h4)
    apply (rule exI[of _ out], rule exI[of _ les])
    apply (rule conjI[OF h1 fin])
    done
qed




text \<open>
  C5. In every successful result the metadata carries filename and file_size from the file
  system and pages. When the result is a Document that has a metadata mapping, pages,
  title and author are taken from it, with 0 and the empty string for what it lacks.
  When the result has no metadata attribute, or is no Document, the metadata is filename,
  file_size and pages 0 only: title and author are not present.
\<close>

theorem C5_metadata:
  assumes "result (main os construct (Parsed a)) = Some d" "map_of d ''success'' = Some (PBool True)"
    "conversion construct a = Inr (Inr r)"
  shows "\<exists>md. map_of d ''metadata'' = Some (PDict md) \<and>
           map_of md ''filename'' = Some (PStr (name (input_file a))) \<and>
           map_of md ''file_size'' = Some (PInt (st_size (input_file a))) \<and>
           (if is_document r \<and> metadata r \<noteq> None
            then \<exists>mm. metadata r = Some (Inr mm) \<and>
                   md = [(''filename'', PStr (name (input_file a))),
                         (''file_size'', PInt (st_size (input_file a))),
                         (''pages'', dict_get mm ''page_count'' (PInt 0)),
                         (''title'', dict_get mm ''title'' (PStr [])),
                         (''author'', dict_get mm ''author'' (PStr []))]
            else md = [(''filename'', PStr (name (input_file a))),
                       (''file_size'', PInt (st_size (input_file a))),
                       (''pages'', PInt 0)])"
proof -
  from main_success_flatten[OF assms(1,2)] assms(3) obtain w where
    fl: "flatten (input_file a) (cli_options a) r = (w, Inr d)"
    by auto
  let ?md0 = "[(''filename'', PStr (name (input_file a))),
               (''file_size'', PInt (st_size (input_file a))), (''pages'', PInt 0)]"
  from flatten_Inr_full[OF fl] obtain md c ts fs ls where
    d: "d = success_output (dict_get (cli_options a) ''output_format'' (PStr ''json''))
              (PDict md) c (PList ts) (PList fs) (PList ls)" and
    m: "if is_document r
        then (case metadata r of
                None \<Rightarrow> md = ?md0
              | Some x \<Rightarrow> \<exists>mm. x = Inr mm \<and>
                  md = dict_update ?md0
                         [(''title'', dict_get mm ''title'' (PStr [])),
                          (''author'', dict_get mm ''author'' (PStr [])),
                          (''pages'', dict_get mm ''page_count'' (PInt 0))])
        else md = ?md0"
    by (cases "is_document r") auto
  have md: "map_of d ''metadata'' = Some (PDict md)"
    by (simp add: d lookup_success_output)
  show ?thesis
  proof (cases "is_document r \<and> metadata r \<noteq> None")
    case True
    with m obtain mm where mm: "metadata r = Some (Inr mm)" and
      e: "md = dict_update ?md0
                 [(''title'', dict_get mm ''title'' (PStr [])),
                  (''author'', dict_get mm ''author'' (PStr [])),
                  (''pages'', dict_get mm ''page_count'' (PInt 0))]"
      by auto
    have e': "md = [(''filename'', PStr (name (input_file a))),
                    (''file_size'', PInt (st_size (input_file a))),
                    (''pages'', dict_get mm ''page_count'' (PInt 0)),
                    (''title'', dict_get mm ''title'' (PStr [])),
                    (''author'', dict_get mm ''author'' (PStr []))]"
      by (simp add: e)
    show ?thesis
      apply (rule exI[of _ md])
      using True mm md e' by simp
  next
    case False
    with m have e: "md = ?md0"
      by (auto split: option.splits if_splits)
    show ?thesis
      apply (rule exI[of _ md])
      using False md e by simp
  qed
qed

theorem C5_metadata_witness:
  "\<exists>d. result (main ex_os (returns ex_document) (Parsed ex_args)) = Some d \<and>
       map_of d ''success'' = Some (PBool True) \<and>
       conversion (returns ex_document) ex_args = Inr (Inr ex_document) \<and>
       map_of d ''metadata'' =
         Some (PDict [(''filename'', PStr ''report.pdf''), (''file_size'', PInt 2048),
                      (''pages'', PInt 3), (''title'', PStr ''Report''), (''author'', PStr [])])"
proof -
  obtain d where r: "result (main ex_os (returns ex_document) (Parsed ex_args)) = Some d"
    by (simp add: eval_defs)
  have s: "map_of d ''success'' = Some (PBool True)"
    using r by (auto simp: eval_defs)
  have c: "conversion (returns ex_document) ex_args = Inr (Inr ex_document)"
    by (simp add: conversion_def returns_def)
  have i: "is_document ex_document"
    "metadata ex_document = Some (Inr [(''title'', PStr ''Report''), (''page_count'', PInt 3)])"
    "name (input_file ex_args) = ''report.pdf''" "st_size (input_file ex_args) = 2048"
    by (simp_all add: ex_document_def ex_args_def ex_path_def)
  from C5_metadata[OF r s c] have
    "map_of d ''metadata'' =
     Some (PDict [(''filename'', PStr ''report.pdf''), (''file_size'', PInt 2048),
                  (''pages'', PInt 3), (''title'', PStr ''Report''), (''author'', PStr [])])"
    by (auto simp: i dict_get_def)
  with r s c show ?thesis by blast
qed

text \<open>
  C5, the counterexample to the claim as written (title and author present for every
  converter result): a Document without a metadata attribute, whose output metadata has
  neither key.
\<close>

theorem C5_title_author_counterexample:
  "is_document (ex_document\<lparr>metadata := None\<rparr>) \<and>
   conversion (returns (ex_document\<lparr>metadata := None\<rparr>)) ex_args =
     Inr (Inr (ex_document\<lparr>metadata := None\<rparr>)) \<and>
   result (main ex_os (returns (ex_document\<lparr>metadata := None\<rparr>))
     (Parsed (ex_args\<lparr>extract_tables := False, extract_figures := False,
                     preserve_layout := False\<rparr>))) =
     Some [(''success'', PBool True), (''format'', PStr ''json''),
           (''metadata'', PDict [(''filename'', PStr ''report.pdf''),
                                (''file_size'', PInt 2048), (''pages'', PInt 0)]),
           (''content'', PStr ''Report''),
           (''tables'', PList []), (''figures'', PList []), (''layout'', PList [])] \<and>
   map_of [(''filename'', PStr ''report.pdf''), (''file_size'', PInt 2048), (''pages'', PInt 0)]
     ''title'' = None \<and>
   map_of [(''filename'', PStr ''report.pdf''), (''file_size'', PInt 2048), (''pages'', PInt 0)]
     ''author'' = None"
  by (simp add: eval_defs)

text \<open>
  C6. With figure extraction on, a failure to encode the image of a figure is swallowed:
  it is logged as a warning and nothing else. If the flattening succeeds with the images
  taken away, it succeeds with them, whatever their encoding does; every figure gets its
  record, in order, with its caption; and the record has the key base64 with the value
  None (the JSON null) rather than a string, both when the encoding fails and when the
  figure has no image.
\<close>

theorem C6_figure_encoding_swallowed:
  assumes "is_document r" "truthy (dict_get options ''extract_figures'' (PBool True))"
    "figures r = Some (Iteration fs None)"
    "flatten p options (r\<lparr>figures := Some (Iteration (map (\<lambda>f. f\<lparr>image := None\<rparr>) fs) None)\<rparr>) =
       (w0, Inr out0)"
  shows "\<exists>out. flatten p options r =
           (concat (map (\<lambda>f. case image f of
                                Some (Inl e) \<Rightarrow>
                                  [(WARNING, ''Could not extract figure image: '' @ str_exc e)]
                              | _ \<Rightarrow> []) fs),
            Inr out) \<and>
           map_of out ''success'' = Some (PBool True) \<and>
           map_of out ''figures'' =
             Some (PList (map (\<lambda>f. PDict
                     [(''caption'', PStr (case fig_caption f of None \<Rightarrow> [] | Some c \<Rightarrow> c)),
                      (''type'', PStr ''figure''),
                      (''base64'', case image f of
                                     Some (Inr (Some b)) \<Rightarrow> PStr b
                                   | _ \<Rightarrow> PNone)]) fs))"
proof -
  from flatten_figures_success[OF assms] obtain w out where
    fl: "flatten p options r = (w, Inr out)"
    by blast
  from flatten_Inr_full[OF fl] obtain md c ts fs' ls where
    out: "out = success_output (dict_get options ''output_format'' (PStr ''json''))
                  (PDict md) c (PList ts) (PList fs') (PList ls)" and
    f: "case figures r of
          None \<Rightarrow> fs' = [] \<and> w = []
        | Some x \<Rightarrow> \<exists>figs. x = Iteration figs None \<and>
            fs' = map (\<lambda>f. PDict (snd (figure_data f))) figs \<and>
            w = concat (map (\<lambda>f. fst (figure_data f)) figs)"
    using assms(1,2) by auto
  from f assms(3) have
    fs': "fs' = map (\<lambda>f. PDict (snd (figure_data f))) fs" and
    w: "w = concat (map (\<lambda>f. fst (figure_data f)) fs)"
    by auto
  show ?thesis
    apply (rule exI[of _ out])
    apply (simp add: fl w out fs' lookup_success_output success_of_success_output figure_data_eq)
    done
qed

theorem C6_figure_encoding_swallowed_witness:
  "is_document ex_document \<and>
   truthy (dict_get (cli_options ex_args) ''extract_figures'' (PBool True)) \<and>
   figures ex_document = Some (Iteration ex_figures None) \<and>
   (\<exists>out0. flatten ex_path (cli_options ex_args)
      (ex_document\<lparr>figures := Some (Iteration (map (\<lambda>f. f\<lparr>image := None\<rparr>) ex_figures) None)\<rparr>) =
      ([], Inr out0)) \<and>
   (\<exists>out. flatten ex_path (cli_options ex_args) ex_document =
      ([(WARNING, ''Could not extract figure image: cannot write mode P as PNG'')], Inr out) \<and>
      map_of out ''success'' = Some (PBool True) \<and>
      map_of out ''figures'' =
        Some (PList [PDict [(''caption'', PStr ''F1''), (''type'', PStr ''figure''),
                            (''base64'', PNone)],
                     PDict [(''caption'', PStr []), (''type'', PStr ''figure''),
                            (''base64'', PNone)],
                     PDict [(''caption'', PStr ''F3''), (''type'', PStr ''figure''),
                            (''base64'', PStr ''iVBORw0KGgo='')]]))"
proof -
  have h1: "is_document ex_document"
    by (simp add: ex_document_def)
  have h2: "truthy (dict_get (cli_options ex_args) ''extract_figures'' (PBool True))"
    by (simp add: cli_options_get ex_args_def)
  have h3: "figures ex_document = Some (Iteration ex_figures None)"
    by (simp add: ex_document_def)
  obtain out0 where h4: "flatten ex_path (cli_options ex_args)
      (ex_document\<lparr>figures := Some (Iteration (map (\<lambda>f. f\<lparr>image := None\<rparr>) ex_figures) None)\<rparr>) =
      ([], Inr out0)"
    by (simp add: eval_defs)
  from C6_figure_encoding_swallowed[OF h1 h2 h3 h4] obtain out where
    o: "flatten ex_path (cli_options ex_args) ex_document =
          (concat (map (\<lambda>f. case image f of
                                Some (Inl e) \<Rightarrow>
                                  [(WARNING, ''Could not extract figure image: '' @ str_exc e)]
                              | _ \<Rightarrow> []) ex_figures),
           Inr out)"
       "map_of out ''success'' = Some (PBool True)"
       "map_of out ''figures'' =
             Some (PList (map (\<lambda>f. PDict
                     [(''caption'', PStr (case fig_caption f of None \<Rightarrow> [] | Some c \<Rightarrow> c)),
                      (''type'', PStr ''figure''),
                      (''base64'', case image f of
                                     Some (Inr (Some b)) \<Rightarrow> PStr b
                                   | _ \<Rightarrow> PNone)]) ex_figures))"
    by blast
  have fin: "flatten ex_path (cli_options ex_args) ex_document =
      ([(WARNING, ''Could not extract figure image: cannot write mode P as PNG'')], Inr out) \<and>
      map_of out ''success'' = Some (PBool True) \<and>
      map_of out ''figures'' =
        Some (PList [PDict [(''caption'', PStr ''F1''), (''type'', PStr ''figure''),
                            (''base64'', PNone)],
                     PDict [(''caption'', PStr []), (''type'', PStr ''figure''),
                            (''base64'', PNone)],
                     PDict [(''caption'', PStr ''F3''), (''type'', PStr ''figure''),
                            (''base64'', PStr ''iVBORw0KGgo='')]])"
    using o by (simp add: ex_figures_def)
  show ?thesis
    apply (intro conjI h1 h2 h3)
     apply (rule exI[of _ out0], rule h4)
    apply (rule exI[of _ out], rule fin)
    done
qed

text \<open>
  C6, the counterexample to the claim as written (the base64 field absent): in the
  example run the first figure fails to encode and the second has no image, and both
  records of the result have the key base64, with the value None.
\<close>

theorem C6_base64_present_counterexample:
  "figures ex_document = Some (Iteration ex_figures None) \<and>
   image (ex_figures ! 0) = Some (Inl (PyException ''cannot write mode P as PNG'')) \<and>
   image (ex_figures ! 1) = None \<and>
   result (main ex_os (returns ex_document)
     (Parsed (ex_args\<lparr>extract_tables := False, preserve_layout := False\<rparr>))) =
     Some [(''success'', PBool True), (''format'', PStr ''json''),
           (''metadata'', PDict [(''filename'', PStr ''report.pdf''),
                                (''file_size'', PInt 2048), (''pages'', PInt 3),
                                (''title'', PStr ''Report''), (''author'', PStr [])]),
           (''content'', PStr ''Report''),
           (''tables'', PList []),
           (''figures'',
            PList [PDict [(''caption'', PStr ''F1''), (''type'', PStr ''figure''),
                          (''base64'', PNone)],
                   PDict [(''caption'', PStr []), (''type'', PStr ''figure''),
                          (''base64'', PNone)],
                   PDict [(''caption'', PStr ''F3''), (''type'', PStr ''figure''),
                          (''base64'', PStr ''iVBORw0KGgo='')]]),
           (''layout'', PList [])] \<and>
   keys (snd (figure_data (ex_figures ! 0))) = [''caption'', ''type'', ''base64''] \<and>
   keys (snd (figure_data (ex_figures ! 1))) = [''caption'', ''type'', ''base64'']"
  by (simp add: eval_defs)

text \<open>
  C7. In a successful run on a Document, the content is what \<^verbatim>\<open>to_markdown()\<close> returns
  when the format is markdown and what \<^verbatim>\<open>to_text()\<close> returns when the format is text
  or json: json has the same text rendering as text.
\<close>

theorem C7_content_rendering:
  assumes "result (main os construct (Parsed a)) = Some d" "map_of d ''success'' = Some (PBool True)"
    "conversion construct a = Inr (Inr r)" "is_document r"
  shows "\<exists>c. map_of d ''content'' = Some c \<and>
           (case output_format a of
              Markdown \<Rightarrow> to_markdown r
            | Text \<Rightarrow> to_text r
            | Json \<Rightarrow> to_text r) = Inr c"
proof -
  from main_success_flatten[OF assms(1,2)] assms(3) obtain w where
    fl: "flatten (input_file a) (cli_options a) r = (w, Inr d)"
    by auto
  from flatten_Inr_full[OF fl] obtain md c ts fs ls fmt where
    d: "d = success_output (dict_get (cli_options a) ''output_format'' (PStr ''json''))
              (PDict md) c (PList ts) (PList fs) (PList ls)" and
    f: "dict_getitem (cli_options a) ''output_format'' = Inr fmt" and
    c: "(if fmt = PStr ''markdown'' then to_markdown r else to_text r) = Inr c"
    using assms(4) by auto
  from f have fmt: "fmt = PStr (format_str (output_format a))"
    by (simp add: cli_options_getitem)
  have "(case output_format a of
              Markdown \<Rightarrow> to_markdown r
            | Text \<Rightarrow> to_text r
            | Json \<Rightarrow> to_text r) = Inr c"
    using c by (cases "output_format a") (simp_all add: fmt)
  then show ?thesis
    by (simp add: d lookup_success_output)
qed

theorem C7_content_rendering_witness:
  "(\<exists>d. result (main ex_os (returns ex_document)
           (Parsed (ex_args\<lparr>output_format := Markdown\<rparr>))) = Some d \<and>
        map_of d ''content'' = Some (PStr ''# Report'')) \<and>
   (\<exists>d. result (main ex_os (returns ex_document)
           (Parsed (ex_args\<lparr>output_format := Text\<rparr>))) = Some d \<and>
        map_of d ''content'' = Some (PStr ''Report'')) \<and>
   (\<exists>d. result (main ex_os (returns ex_document)
           (Parsed (ex_args\<lparr>output_format := Json\<rparr>))) = Some d \<and>
        map_of d ''content'' = Some (PStr ''Report'')) \<and>
   to_markdown ex_document = Inr (PStr ''# Report'') \<and>
   to_text ex_document = Inr (PStr ''Report'')"
proof -
  have w: "\<exists>d. result (main ex_os (returns ex_document)
             (Parsed (ex_args\<lparr>output_format := f\<rparr>))) = Some d \<and>
           map_of d ''content'' =
             Some (case f of Markdown \<Rightarrow> PStr ''# Report'' | _ \<Rightarrow> PStr ''Report'')" for f
  proof -
    obtain d where r: "result (main ex_os (returns ex_document)
             (Parsed (ex_args\<lparr>output_format := f\<rparr>))) = Some d"
      by (cases f) (simp_all add: eval_defs)
    have s: "map_of d ''success'' = Some (PBool True)"
      using r by (cases f) (auto simp: eval_defs)
    have c: "conversion (returns ex_document) (ex_args\<lparr>output_format := f\<rparr>) =
               Inr (Inr ex_document)"
      by (simp add: conversion_def returns_def)
    have i: "is_document ex_document" "to_markdown ex_document = Inr (PStr ''# Report'')"
      "to_text ex_document = Inr (PStr ''Report'')"
      by (simp_all add: ex_document_def)
    from C7_content_rendering[OF r s c i(1)] have
      "map_of d ''content'' =
         Some (case f of Markdown \<Rightarrow> PStr ''# Report'' | _ \<Rightarrow> PStr ''Report'')"
      by (cases f) (auto simp: i)
    with r show ?thesis by blast
  qed
  have i: "to_markdown ex_document = Inr (PStr ''# Report'')"
    "to_text ex_document = Inr (PStr ''Report'')"
    by (simp_all add: ex_document_def)
  show ?thesis
    using w[of Markdown] w[of Text] w[of Json] i by simp
qed




text \<open>
  C9. The flag \<^verbatim>\<open>--extract-equations\<close> has no effect on the output: the flattening
  does not read the option, so for a fixed converter result two runs that differ only in
  this flag are the same run. The flag only reaches the pipeline options of the converter.
\<close>

theorem C9_extract_equations_no_effect:
  "flatten p (dict_set options ''extract_equations'' v) r = flatten p options r \<and>
   (conversion construct (a\<lparr>extract_equations := b\<rparr>) = conversion construct a \<longrightarrow>
      main os construct (Parsed (a\<lparr>extract_equations := b\<rparr>)) = main os construct (Parsed a)) \<and>
   equation_extraction (pipeline_options_for (cli_options a)) =
     (if extract_equations a then Some True else None)"
proof -
  have m: "main os construct (Parsed (a\<lparr>extract_equations := b\<rparr>)) = main os construct (Parsed a)"
    if c: "conversion construct (a\<lparr>extract_equations := b\<rparr>) = conversion construct a"
    using process_document_extract_equations[OF c]
    by (simp add: main_by_process write_output_extract_equations split: sum.splits prod.splits)
  have e: "equation_extraction (pipeline_options_for (cli_options a)) =
     (if extract_equations a then Some True else None)"
    by (simp add: pipeline_options_for_def PipelineOptions_def cli_options_get Let_def)
  show ?thesis
    using m e by (simp add: flatten_extract_equations)
qed

theorem C9_extract_equations_no_effect_witness:
  "conversion (returns ex_document) (ex_args\<lparr>extract_equations := True\<rparr>) =
     conversion (returns ex_document) ex_args \<and>
   main ex_os (returns ex_document) (Parsed (ex_args\<lparr>extract_equations := True\<rparr>)) =
     main ex_os (returns ex_document) (Parsed ex_args) \<and>
   equation_extraction (pipeline_options_for (cli_options (ex_args\<lparr>extract_equations := True\<rparr>))) =
     Some True \<and>
   equation_extraction (pipeline_options_for (cli_options ex_args)) = None"
proof -
  have c: "conversion (returns ex_document) (ex_args\<lparr>extract_equations := True\<rparr>) =
     conversion (returns ex_document) ex_args"
    by (simp add: conversion_def returns_def)
  have x: "extract_equations (ex_args\<lparr>extract_equations := True\<rparr>)" "\<not> extract_equations ex_args"
    by (simp_all add: ex_args_def)
  show ?thesis
    using C9_extract_equations_no_effect[where p = ex_path and options = "cli_options ex_args"
        and v = "PBool True" and r = ex_document and construct = "returns ex_document"
        and a = ex_args and b = True and os = ex_os]
      C9_extract_equations_no_effect[where p = ex_path and options = "cli_options ex_args"
        and v = "PBool True" and r = ex_document and construct = "returns ex_document"
        and a = "ex_args\<lparr>extract_equations := True\<rparr>" and b = True and os = ex_os]
      c x
    by simp
qed



end
